theory Spec2Isabelle
  imports Complex_Main "HOL-Library.AList"
begin

section \<open>IoT sensor network: data model\<close>

text \<open>
  Embedding of \<^verbatim>\<open>backend/climate_iot/iot_sensors.py\<close>. Python floats are read as
  real numbers (exact arithmetic). Every call of \<^verbatim>\<open>datetime.now()\<close> inside one operation
  is the clock reading \<open>now\<close> handed to that operation, in microseconds since
  0001-01-01T00:00:00. Strings are byte lists (UTF-8).
  The operations \<^verbatim>\<open>get_current_readings\<close>, \<^verbatim>\<open>get_network_status\<close> and
  \<^verbatim>\<open>simulate_readings\<close> take no part in the properties below and are left out.
\<close>

datatype SensorType =
    TEMPERATURE | HUMIDITY | AIR_QUALITY | CO2 | VOC | PARTICULATE | NOISE | LIGHT
  | MOTION | DOOR_WINDOW | WATER_LEAK | SMOKE | GAS | RADON | ELECTRICITY

fun sensor_type_value :: "SensorType \<Rightarrow> string" where
  "sensor_type_value TEMPERATURE = ''Temperature''"
| "sensor_type_value HUMIDITY = ''Humidity''"
| "sensor_type_value AIR_QUALITY = ''Air Quality (AQI)''"
| "sensor_type_value CO2 = ''CO2''"
| "sensor_type_value VOC = ''Volatile Organic Compounds''"
| "sensor_type_value PARTICULATE = ''Particulate Matter (PM2.5/PM10)''"
| "sensor_type_value NOISE = ''Noise Level''"
| "sensor_type_value LIGHT = ''Light Intensity''"
| "sensor_type_value MOTION = ''Motion''"
| "sensor_type_value DOOR_WINDOW = ''Door/Window Contact''"
| "sensor_type_value WATER_LEAK = ''Water Leak''"
| "sensor_type_value SMOKE = ''Smoke''"
| "sensor_type_value GAS = ''Gas Leak''"
| "sensor_type_value RADON = ''Radon''"
| "sensor_type_value ELECTRICITY = ''Electricity Usage''"

datatype AlertSeverity = INFO | WARNING | CRITICAL | EMERGENCY

text \<open>
  A \<^verbatim>\<open>datetime\<close>: its wall-clock instant in microseconds since 0001-01-01T00:00:00 and,
  when it is offset-aware, its UTC offset in microseconds. \<^verbatim>\<open>datetime.now()\<close> is naive;
  the timestamp handed to \<^verbatim>\<open>ingest_reading\<close> may be either.
\<close>

datatype datetime = Naive int | Aware int int

text \<open>The \<^verbatim>\<open>thresholds\<close> dictionary of a sensor always has these four keys.\<close>

record threshold_band =
  thr_min :: real
  thr_max :: real
  thr_optimal_min :: real
  thr_optimal_max :: real

record Sensor =
  sensor_id :: string
  sensor_type :: SensorType
  location :: string
  room :: string
  status :: string
  battery_level :: int
  last_reading :: real
  last_reading_time :: datetime
  calibration_date :: datetime
  thresholds :: threshold_band

record SensorReading =
  reading_id :: string
  r_sensor_id :: string
  r_sensor_type :: SensorType
  r_value :: real
  r_unit :: string
  r_timestamp :: datetime
  r_quality :: string
  triggered_alert :: bool

text \<open>
  The alert message is an f-string over the sensor's category, its room, the value, the
  unit and the violated bound; it is kept as these five parts, in the order in which
  the f-string prints them.
\<close>

record alert_message =
  msg_category :: string
  msg_room :: string
  msg_value :: real
  msg_unit :: string
  msg_threshold :: real

record Alert =
  alert_id :: string
  a_sensor_id :: string
  severity :: AlertSeverity
  message :: alert_message
  a_value :: real
  threshold :: real
  a_timestamp :: datetime
  acknowledged :: bool
  resolved :: bool
  resolution_time :: "datetime option"

text \<open>
  What a registered callback does when it is called with an alert: it returns, it raises
  an instance of \<^verbatim>\<open>Exception\<close>, or it raises a \<^verbatim>\<open>BaseException\<close> that is not an
  \<^verbatim>\<open>Exception\<close> (\<^verbatim>\<open>SystemExit\<close>, \<^verbatim>\<open>KeyboardInterrupt\<close>, \<^verbatim>\<open>GeneratorExit\<close>).
\<close>

datatype callback_outcome = Returns | RaisesException | RaisesBaseException

datatype error =
  ValueError string | ZeroDivisionError | OverflowError | TypeError | BaseExceptionRaised

text \<open>
  The manager. \<^verbatim>\<open>sensors\<close> is a Python dictionary, whose iteration order is insertion
  order: an association list, looked up with \<open>map_of\<close> and assigned with
  \<open>AList.update\<close>.
\<close>

record IoTSensorManager =
  property_id :: string
  sensors :: "(string \<times> Sensor) list"
  readings :: "SensorReading list"
  alerts :: "Alert list"
  alert_callbacks :: "(Alert \<Rightarrow> callback_outcome) list"
  reading_counter :: nat
  alert_counter :: nat

record sensor_config =
  unit :: string
  min_threshold :: real
  max_threshold :: real
  optimal_min :: real
  optimal_max :: real

fun SENSOR_CONFIG :: "SensorType \<Rightarrow> sensor_config option" where
  "SENSOR_CONFIG TEMPERATURE = Some \<lparr>unit = [CHR 0xC2, CHR 0xB0, CHR ''C''],
     min_threshold = 10, max_threshold = 35, optimal_min = 20, optimal_max = 26\<rparr>"
| "SENSOR_CONFIG HUMIDITY = Some \<lparr>unit = ''%'',
     min_threshold = 20, max_threshold = 80, optimal_min = 40, optimal_max = 60\<rparr>"
| "SENSOR_CONFIG AIR_QUALITY = Some \<lparr>unit = ''AQI'',
     min_threshold = 0, max_threshold = 150, optimal_min = 0, optimal_max = 50\<rparr>"
| "SENSOR_CONFIG CO2 = Some \<lparr>unit = ''ppm'',
     min_threshold = 400, max_threshold = 1000, optimal_min = 400, optimal_max = 600\<rparr>"
| "SENSOR_CONFIG VOC = Some \<lparr>unit = ''ppb'',
     min_threshold = 0, max_threshold = 500, optimal_min = 0, optimal_max = 100\<rparr>"
| "SENSOR_CONFIG PARTICULATE = Some \<lparr>unit = [CHR 0xCE, CHR 0xBC, CHR ''g'', CHR ''/'', CHR ''m'', CHR 0xC2, CHR 0xB3],
     min_threshold = 0, max_threshold = 60, optimal_min = 0, optimal_max = 12\<rparr>"
| "SENSOR_CONFIG NOISE = Some \<lparr>unit = ''dB'',
     min_threshold = 0, max_threshold = 70, optimal_min = 0, optimal_max = 45\<rparr>"
| "SENSOR_CONFIG LIGHT = Some \<lparr>unit = ''lux'',
     min_threshold = 0, max_threshold = 10000, optimal_min = 300, optimal_max = 500\<rparr>"
| "SENSOR_CONFIG ELECTRICITY = Some \<lparr>unit = ''kWh'',
     min_threshold = 0, max_threshold = 1000, optimal_min = 0, optimal_max = 30\<rparr>"
| "SENSOR_CONFIG _ = None"

text \<open>\<^verbatim>\<open>SENSOR_CONFIG.get(t, {}).get(key, default)\<close>, one accessor per key and default.\<close>

definition config_get :: "SensorType \<Rightarrow> (sensor_config \<Rightarrow> 'a) \<Rightarrow> 'a \<Rightarrow> 'a" where
  "config_get t key dflt = (case SENSOR_CONFIG t of None \<Rightarrow> dflt | Some c \<Rightarrow> key c)"

section \<open>Identifiers\<close>

text \<open>\<^verbatim>\<open>f"{n:0wd}"\<close>: the decimal digits of \<open>n\<close>, padded with zeros on the left to width \<open>w\<close>.\<close>

definition digit_char :: "nat \<Rightarrow> char" where
  "digit_char d = ''0123456789'' ! d"

fun decimal :: "nat \<Rightarrow> string" where
  "decimal n = (if n < 10 then [digit_char n] else decimal (n div 10) @ [digit_char (n mod 10)])"

declare decimal.simps [simp del]

definition zero_padded :: "nat \<Rightarrow> nat \<Rightarrow> string" where
  "zero_padded w n = replicate (w - length (decimal n)) (CHR ''0'') @ decimal n"

section \<open>Registry and ingestion\<close>

definition init :: "string \<Rightarrow> IoTSensorManager" where
  "init pid = \<lparr>property_id = pid, sensors = [], readings = [], alerts = [],
     alert_callbacks = [], reading_counter = 0, alert_counter = 0\<rparr>"

definition register_sensor ::
  "IoTSensorManager \<Rightarrow> SensorType \<Rightarrow> string \<Rightarrow> string \<Rightarrow> int \<Rightarrow> Sensor \<times> IoTSensorManager" where
  "register_sensor m t loc rm now =
     (let sid = ''S-'' @ zero_padded 4 (length (sensors m) + 1);
          sensor = \<lparr>sensor_id = sid, sensor_type = t, location = loc, room = rm,
            status = ''Online'', battery_level = 100, last_reading = 0,
            last_reading_time = Naive now, calibration_date = Naive now,
            thresholds = \<lparr>thr_min = config_get t min_threshold 0,
              thr_max = config_get t max_threshold 100,
              thr_optimal_min = config_get t optimal_min 20,
              thr_optimal_max = config_get t optimal_max 80\<rparr>\<rparr>
      in (sensor, m\<lparr>sensors := AList.update sid sensor (sensors m)\<rparr>))"

definition register_alert_callback ::
  "IoTSensorManager \<Rightarrow> (Alert \<Rightarrow> callback_outcome) \<Rightarrow> IoTSensorManager" where
  "register_alert_callback m callback = m\<lparr>alert_callbacks := alert_callbacks m @ [callback]\<rparr>"

definition assess_reading_quality :: "real \<Rightarrow> SensorType \<Rightarrow> string" where
  "assess_reading_quality v t =
     (let omin = config_get t optimal_min 20;
          omax = config_get t optimal_max 80
      in if omin \<le> v \<and> v \<le> omax then ''Good''
         else if v < omin * 0.8 \<or> v > omax * 1.2 then ''Poor''
         else ''Fair'')"

definition check_thresholds :: "Sensor \<Rightarrow> real \<Rightarrow> bool" where
  "check_thresholds sensor v = (v < thr_min (thresholds sensor) \<or> v > thr_max (thresholds sensor))"

text \<open>The severity chain of \<^verbatim>\<open>_generate_alert\<close>.\<close>

definition alert_severity :: "Sensor \<Rightarrow> real \<Rightarrow> AlertSeverity" where
  "alert_severity sensor v =
     (if v > thr_max (thresholds sensor) * 1.5 \<or> v < thr_min (thresholds sensor) * 0.5 then CRITICAL
      else if v > thr_max (thresholds sensor) * 1.2 \<or> v < thr_min (thresholds sensor) * 0.8 then WARNING
      else INFO)"

text \<open>
  The callback loop of \<^verbatim>\<open>_generate_alert\<close>: \<^verbatim>\<open>except Exception: pass\<close> goes on to the
  next callback; anything else a callback raises leaves the loop.
\<close>

fun notify_callbacks :: "(Alert \<Rightarrow> callback_outcome) list \<Rightarrow> Alert \<Rightarrow> error option" where
  "notify_callbacks [] a = None"
| "notify_callbacks (callback # rest) a =
     (case callback a of
        Returns \<Rightarrow> notify_callbacks rest a
      | RaisesException \<Rightarrow> notify_callbacks rest a
      | RaisesBaseException \<Rightarrow> Some BaseExceptionRaised)"

text \<open>
  The \<^verbatim>\<open>Alert(...)\<close> built by \<^verbatim>\<open>_generate_alert\<close>; \<open>n\<close> is the alert counter
  after its increment.
\<close>

definition new_alert :: "nat \<Rightarrow> Sensor \<Rightarrow> real \<Rightarrow> int \<Rightarrow> Alert" where
  "new_alert n sensor v now =
     (let thr = (if v > thr_max (thresholds sensor) then thr_max (thresholds sensor)
                 else thr_min (thresholds sensor))
      in \<lparr>alert_id = ''A-'' @ zero_padded 6 n,
          a_sensor_id = sensor_id sensor,
          severity = alert_severity sensor v,
          message = \<lparr>msg_category = sensor_type_value (sensor_type sensor),
            msg_room = room sensor, msg_value = v,
            msg_unit = config_get (sensor_type sensor) unit '''', msg_threshold = thr\<rparr>,
          a_value = v, threshold = thr, a_timestamp = Naive now,
          acknowledged = False, resolved = False, resolution_time = None\<rparr>)"

text \<open>
  \<^verbatim>\<open>_generate_alert\<close> returns nothing; the model returns what it raised, if anything,
  and the manager it leaves behind.
\<close>

definition generate_alert ::
  "IoTSensorManager \<Rightarrow> Sensor \<Rightarrow> real \<Rightarrow> int \<Rightarrow> error option \<times> IoTSensorManager" where
  "generate_alert m sensor v now =
     (let counter = alert_counter m + 1;
          alert = new_alert counter sensor v now;
          m' = m\<lparr>alert_counter := counter, alerts := alerts m @ [alert]\<rparr>
      in (notify_callbacks (alert_callbacks m') alert, m'))"

text \<open>\<^verbatim>\<open>if timestamp is None: timestamp = datetime.now()\<close>\<close>

definition timestamp_or_now :: "datetime option \<Rightarrow> int \<Rightarrow> datetime" where
  "timestamp_or_now timestamp now = (case timestamp of None \<Rightarrow> Naive now | Some t \<Rightarrow> t)"

text \<open>
  The \<^verbatim>\<open>SensorReading(...)\<close> built by \<^verbatim>\<open>ingest_reading\<close>; \<open>n\<close> is the reading
  counter after its increment, \<open>ts\<close> the timestamp after its default.
\<close>

definition new_reading :: "nat \<Rightarrow> string \<Rightarrow> Sensor \<Rightarrow> real \<Rightarrow> datetime \<Rightarrow> SensorReading" where
  "new_reading n sid sensor v ts =
     \<lparr>reading_id = ''R-'' @ zero_padded 8 n,
      r_sensor_id = sid, r_sensor_type = sensor_type sensor, r_value = v,
      r_unit = config_get (sensor_type sensor) unit '''', r_timestamp = ts,
      r_quality = assess_reading_quality v (sensor_type sensor),
      triggered_alert = check_thresholds sensor v\<rparr>"

text \<open>
  \<^verbatim>\<open>ingest_reading\<close>: the result is what the call returned or raised, together with
  the manager afterwards (an exception does not undo the mutations made before it).
\<close>

definition ingest_reading ::
  "IoTSensorManager \<Rightarrow> string \<Rightarrow> real \<Rightarrow> datetime option \<Rightarrow> int \<Rightarrow> (error + SensorReading) \<times> IoTSensorManager" where
  "ingest_reading m sid v timestamp now =
     (case map_of (sensors m) sid of
        None \<Rightarrow> (Inl (ValueError (''Sensor '' @ sid @ '' not found'')), m)
      | Some sensor \<Rightarrow>
          (let ts = timestamp_or_now timestamp now;
               counter = reading_counter m + 1;
               reading = new_reading counter sid sensor v ts;
               sensor' = sensor\<lparr>last_reading := v, last_reading_time := ts\<rparr>;
               m1 = m\<lparr>reading_counter := counter,
                 sensors := AList.update sid sensor' (sensors m),
                 readings := readings m @ [reading]\<rparr>
           in if triggered_alert reading
              then (case generate_alert m1 sensor' v now of
                      (None, m2) \<Rightarrow> (Inr reading, m2)
                    | (Some e, m2) \<Rightarrow> (Inl e, m2))
              else (Inr reading, m1)))"

section \<open>History and alert lifecycle\<close>

record history_entry =
  h_value :: real
  h_timestamp :: datetime
  h_quality :: string

text \<open>
  \<^verbatim>\<open>timedelta(hours=h)\<close> in microseconds. A \<^verbatim>\<open>timedelta\<close> holds between -999999999
  and 999999999 days (and less than a day more); outside, the constructor raises
  \<^verbatim>\<open>OverflowError\<close>.
\<close>

definition timedelta_hours :: "int \<Rightarrow> error + int" where
  "timedelta_hours h =
     (if - 999999999 \<le> h div 24 \<and> h div 24 \<le> 999999999 then Inr (h * 3600000000)
      else Inl OverflowError)"

text \<open>
  The instants a \<^verbatim>\<open>datetime\<close> can hold run from 0001-01-01T00:00:00 to
  9999-12-31T23:59:59.999999: \<open>datetime_span\<close> microseconds. Subtracting a
  \<^verbatim>\<open>timedelta\<close> from a naive \<^verbatim>\<open>datetime\<close> raises \<^verbatim>\<open>OverflowError\<close> when the result
  is not among them.
\<close>

definition datetime_span :: int where
  "datetime_span = 3652059 * 86400000000"

definition datetime_minus :: "int \<Rightarrow> int \<Rightarrow> error + int" where
  "datetime_minus t d =
     (if 0 \<le> t - d \<and> t - d < datetime_span then Inr (t - d) else Inl OverflowError)"

text \<open>
  \<^verbatim>\<open>r.timestamp > cutoff\<close> with a naive \<open>cutoff\<close>: an offset-aware timestamp cannot
  be compared with it, and the comparison raises \<^verbatim>\<open>TypeError\<close>.
\<close>

fun later_than :: "datetime \<Rightarrow> int \<Rightarrow> error + bool" where
  "later_than (Naive t) cutoff = Inr (t > cutoff)"
| "later_than (Aware t off) cutoff = Inl TypeError"

definition history_entry_of :: "SensorReading \<Rightarrow> history_entry" where
  "history_entry_of r = \<lparr>h_value = r_value r, h_timestamp = r_timestamp r, h_quality = r_quality r\<rparr>"

text \<open>
  The list comprehension of \<^verbatim>\<open>get_sensor_history\<close> over the reading log: the
  timestamp of a reading is compared only when the reading belongs to the sensor, and
  an exception of the comparison leaves the comprehension.
\<close>

fun history_of :: "SensorReading list \<Rightarrow> string \<Rightarrow> int \<Rightarrow> error + history_entry list" where
  "history_of [] sid cutoff = Inr []"
| "history_of (r # rest) sid cutoff =
     (if r_sensor_id r = sid
      then (case later_than (r_timestamp r) cutoff of
              Inl e \<Rightarrow> Inl e
            | Inr keep \<Rightarrow>
                (case history_of rest sid cutoff of
                   Inl e \<Rightarrow> Inl e
                 | Inr entries \<Rightarrow> Inr (if keep then history_entry_of r # entries else entries)))
      else history_of rest sid cutoff)"

text \<open>
  \<^verbatim>\<open>get_sensor_history\<close>: the cutoff is computed first, then the log is filtered. The
  source prints each timestamp with \<^verbatim>\<open>isoformat()\<close>; the entry keeps the timestamp
  itself.
\<close>

definition get_sensor_history ::
  "IoTSensorManager \<Rightarrow> string \<Rightarrow> int \<Rightarrow> int \<Rightarrow> error + history_entry list" where
  "get_sensor_history m sid hours now =
     (case timedelta_hours hours of
        Inl e \<Rightarrow> Inl e
      | Inr delta \<Rightarrow>
          (case datetime_minus now delta of
             Inl e \<Rightarrow> Inl e
           | Inr cutoff \<Rightarrow> history_of (readings m) sid cutoff))"

text \<open>
  For stating properties of the history: whether a timestamp is offset-aware, its
  wall-clock instant, and whether the cutoff \<open>now - hours\<close> of a window can be
  computed, that is, the \<^verbatim>\<open>timedelta\<close> and the resulting \<^verbatim>\<open>datetime\<close> are in range
  (9999-12-31T23:59:59.999999 is the instant 315537897599999999).
\<close>

fun is_aware :: "datetime \<Rightarrow> bool" where
  "is_aware (Naive t) = False"
| "is_aware (Aware t off) = True"

fun instant :: "datetime \<Rightarrow> int" where
  "instant (Naive t) = t"
| "instant (Aware t off) = t"

definition window_representable :: "int \<Rightarrow> int \<Rightarrow> bool" where
  "window_representable hours now =
     (- 999999999 \<le> hours div 24 \<and> hours div 24 \<le> 999999999
      \<and> 0 \<le> now - hours * 3600000000 \<and> now - hours * 3600000000 \<le> 315537897599999999)"

definition get_active_alerts :: "IoTSensorManager \<Rightarrow> Alert list" where
  "get_active_alerts m = filter (\<lambda>a. \<not> resolved a) (alerts m)"

text \<open>
  The loops of \<^verbatim>\<open>acknowledge_alert\<close> and \<^verbatim>\<open>resolve_alert\<close>: the first alert with
  the identifier is changed in place and the loop returns True; False when the list is
  exhausted.
\<close>

fun acknowledge_loop :: "Alert list \<Rightarrow> string \<Rightarrow> bool \<times> Alert list" where
  "acknowledge_loop [] aid = (False, [])"
| "acknowledge_loop (a # rest) aid =
     (if alert_id a = aid then (True, a\<lparr>acknowledged := True\<rparr> # rest)
      else (case acknowledge_loop rest aid of (found, rest') \<Rightarrow> (found, a # rest')))"

definition acknowledge_alert :: "IoTSensorManager \<Rightarrow> string \<Rightarrow> bool \<times> IoTSensorManager" where
  "acknowledge_alert m aid =
     (case acknowledge_loop (alerts m) aid of (found, as) \<Rightarrow> (found, m\<lparr>alerts := as\<rparr>))"

fun resolve_loop :: "Alert list \<Rightarrow> string \<Rightarrow> int \<Rightarrow> bool \<times> Alert list" where
  "resolve_loop [] aid now = (False, [])"
| "resolve_loop (a # rest) aid now =
     (if alert_id a = aid
      then (True, a\<lparr>resolved := True, resolution_time := Some (Naive now)\<rparr> # rest)
      else (case resolve_loop rest aid now of (found, rest') \<Rightarrow> (found, a # rest')))"

definition resolve_alert :: "IoTSensorManager \<Rightarrow> string \<Rightarrow> int \<Rightarrow> bool \<times> IoTSensorManager" where
  "resolve_alert m aid now =
     (case resolve_loop (alerts m) aid now of (found, as) \<Rightarrow> (found, m\<lparr>alerts := as\<rparr>))"

section \<open>Comfort score\<close>

text \<open>The \<^verbatim>\<open>weights\<close> dictionary of \<^verbatim>\<open>calculate_comfort_score\<close>, in its order.\<close>

definition weights :: "(SensorType \<times> real) list" where
  "weights = [(TEMPERATURE, 0.25), (HUMIDITY, 0.20), (AIR_QUALITY, 0.25),
              (CO2, 0.15), (NOISE, 0.10), (LIGHT, 0.05)]"

text \<open>
  \<^verbatim>\<open>_calculate_sensor_score\<close>. Each of the three divisions raises
  \<^verbatim>\<open>ZeroDivisionError\<close> when its divisor is zero.
\<close>

definition calculate_sensor_score :: "Sensor \<Rightarrow> error + real" where
  "calculate_sensor_score sensor =
     (let omin = config_get (sensor_type sensor) optimal_min 20;
          omax = config_get (sensor_type sensor) optimal_max 80;
          v = last_reading sensor
      in if omin \<le> v \<and> v \<le> omax
         then (let mid = (omin + omax) / 2
               in if omax - mid = 0 then Inl ZeroDivisionError
                  else Inr (100 - (\<bar>v - mid\<bar> / (omax - mid)) * 20))
         else if v < omin
         then (if omin = 0 then Inl ZeroDivisionError
               else Inr (max 0 (80 - ((omin - v) / omin) * 50)))
         else (if omax = 0 then Inl ZeroDivisionError
               else Inr (max 0 (80 - ((v - omax) / omax) * 50))))"

definition score_to_category :: "real \<Rightarrow> string" where
  "score_to_category score =
     (if score \<ge> 90 then ''Excellent''
      else if score \<ge> 75 then ''Good''
      else if score \<ge> 60 then ''Fair''
      else if score \<ge> 40 then ''Poor''
      else ''Critical'')"

definition scores_get :: "(string \<times> real) list \<Rightarrow> string \<Rightarrow> real \<Rightarrow> real" where
  "scores_get scores k dflt = (case map_of scores k of None \<Rightarrow> dflt | Some x \<Rightarrow> x)"

definition generate_comfort_recommendations :: "(string \<times> real) list \<Rightarrow> string list" where
  "generate_comfort_recommendations scores =
     (let recommendations =
            (if scores_get scores (sensor_type_value TEMPERATURE) 100 < 70
             then [''Adjust HVAC temperature settings''] else [])
          @ (if scores_get scores (sensor_type_value HUMIDITY) 100 < 70
             then [''Consider using humidifier/dehumidifier''] else [])
          @ (if scores_get scores (sensor_type_value AIR_QUALITY) 100 < 70
             then [''Improve ventilation or use air purifier''] else [])
          @ (if scores_get scores (sensor_type_value CO2) 100 < 70
             then [''Increase fresh air intake''] else [])
          @ (if scores_get scores (sensor_type_value NOISE) 100 < 70
             then [''Investigate noise sources''] else [])
      in if recommendations \<noteq> [] then recommendations
         else [''All parameters within optimal range''])"

text \<open>
  The first loop of \<^verbatim>\<open>calculate_comfort_score\<close>, over \<^verbatim>\<open>self.sensors.values()\<close>:
  a sensor whose category has a weight is scored, and the score is stored under the
  category's name; an exception of the scoring leaves the loop.
\<close>

fun collect_scores :: "Sensor list \<Rightarrow> (string \<times> real) list \<Rightarrow> error + (string \<times> real) list" where
  "collect_scores [] scores = Inr scores"
| "collect_scores (sensor # rest) scores =
     (if map_of weights (sensor_type sensor) \<noteq> None
      then (case calculate_sensor_score sensor of
              Inl e \<Rightarrow> Inl e
            | Inr score \<Rightarrow>
                collect_scores rest (AList.update (sensor_type_value (sensor_type sensor)) score scores))
      else collect_scores rest scores)"

text \<open>The second loop, over \<^verbatim>\<open>weights.items()\<close>: the pair is (weighted_sum, total_weight).\<close>

fun weighted_totals :: "(SensorType \<times> real) list \<Rightarrow> (string \<times> real) list \<Rightarrow> real \<times> real \<Rightarrow> real \<times> real" where
  "weighted_totals [] scores acc = acc"
| "weighted_totals ((t, weight) # rest) scores (weighted_sum, total_weight) =
     (case map_of scores (sensor_type_value t) of
        Some score \<Rightarrow> weighted_totals rest scores (weighted_sum + score * weight, total_weight + weight)
      | None \<Rightarrow> weighted_totals rest scores (weighted_sum, total_weight))"

text \<open>
  \<^verbatim>\<open>round(x, 1)\<close>: to one decimal, a tie going to the even neighbour.
\<close>

definition round1 :: "real \<Rightarrow> real" where
  "round1 x =
     (let f = \<lfloor>x * 10\<rfloor>; d = x * 10 - of_int f
      in of_int (if d < 1 / 2 then f else if d > 1 / 2 then f + 1
                 else if even f then f else f + 1) / 10)"

record comfort_result =
  overall_score :: real
  category :: string
  component_scores :: "(string \<times> real) list"
  recommendations :: "string list"

definition calculate_comfort_score :: "IoTSensorManager \<Rightarrow> error + comfort_result" where
  "calculate_comfort_score m =
     (case collect_scores (map snd (sensors m)) [] of
        Inl e \<Rightarrow> Inl e
      | Inr scores \<Rightarrow>
          (case weighted_totals weights scores (0, 0) of
             (weighted_sum, total_weight) \<Rightarrow>
               (let overall = (if total_weight > 0 then weighted_sum / total_weight else 50)
                in Inr \<lparr>overall_score = round1 overall,
                        category = score_to_category overall,
                        component_scores = scores,
                        recommendations = generate_comfort_recommendations scores\<rparr>)))"

section \<open>Reachable states\<close>

text \<open>
  The thresholds that \<^verbatim>\<open>register_sensor\<close> gives a sensor of category \<open>t\<close>, and two
  properties of a manager: every sensor still has the thresholds of its category, and
  every logged reading belongs to a registered sensor.
\<close>

definition config_thresholds :: "SensorType \<Rightarrow> threshold_band" where
  "config_thresholds t = \<lparr>thr_min = config_get t min_threshold 0,
     thr_max = config_get t max_threshold 100,
     thr_optimal_min = config_get t optimal_min 20,
     thr_optimal_max = config_get t optimal_max 80\<rparr>"

definition thresholds_from_config :: "IoTSensorManager \<Rightarrow> bool" where
  "thresholds_from_config m =
     list_all (\<lambda>s. thresholds s = config_thresholds (sensor_type s)) (map snd (sensors m))"

definition log_owned :: "IoTSensorManager \<Rightarrow> bool" where
  "log_owned m = list_all (\<lambda>r. map_of (sensors m) (r_sensor_id r) \<noteq> None) (readings m)"

text \<open>
  The managers that the public operations produce from a fresh one. An ingestion that
  raised still leaves its manager behind.
\<close>

inductive reachable :: "IoTSensorManager \<Rightarrow> bool" where
  reachable_init: "reachable (init pid)"
| reachable_register: "reachable m \<Longrightarrow> reachable (snd (register_sensor m t loc rm now))"
| reachable_callback: "reachable m \<Longrightarrow> reachable (register_alert_callback m callback)"
| reachable_ingest: "reachable m \<Longrightarrow> reachable (snd (ingest_reading m sid v ts now))"
| reachable_acknowledge: "reachable m \<Longrightarrow> reachable (snd (acknowledge_alert m aid))"
| reachable_resolve: "reachable m \<Longrightarrow> reachable (snd (resolve_alert m aid now))"

text \<open>The order of the severities, as the enumeration declares them.\<close>

fun severity_rank :: "AlertSeverity \<Rightarrow> nat" where
  "severity_rank INFO = 0"
| "severity_rank WARNING = 1"
| "severity_rank CRITICAL = 2"
| "severity_rank EMERGENCY = 3"

text \<open>
  Two callbacks: one raises an \<^verbatim>\<open>Exception\<close> on every call, the other leaves the
  interpreter (\<^verbatim>\<open>sys.exit()\<close>, which raises \<^verbatim>\<open>SystemExit\<close>).
\<close>

definition failing_callback :: "Alert \<Rightarrow> callback_outcome" where
  "failing_callback a = RaisesException"

definition exiting_callback :: "Alert \<Rightarrow> callback_outcome" where
  "exiting_callback a = RaisesBaseException"

text \<open>A fresh manager with one sensor of category \<open>t\<close>, registered at time 0.\<close>

definition one_sensor :: "SensorType \<Rightarrow> IoTSensorManager" where
  "one_sensor t = snd (register_sensor (init ''PROP-001'') t ''Main Hall'' ''Living Room'' 0)"

definition first_sensor :: "SensorType \<Rightarrow> Sensor" where
  "first_sensor t = fst (register_sensor (init ''PROP-001'') t ''Main Hall'' ''Living Room'' 0)"

text \<open>
  A clock reading, 2026-01-01T02:00:00, and one temperature sensor with three readings,
  ingested in this order with explicit timestamps: at 02:30, at 01:00 and at 01:30 of
  that day.
\<close>

definition two_o_clock :: int where
  "two_o_clock = 63902822400000000 + 7200000000"

definition history_scenario :: IoTSensorManager where
  "history_scenario =
     snd (ingest_reading
       (snd (ingest_reading
         (snd (ingest_reading (one_sensor TEMPERATURE) ''S-0001'' 21
            (Some (Naive (63902822400000000 + 9000000000))) 0))
         ''S-0001'' 22 (Some (Naive (63902822400000000 + 3600000000))) 0))
       ''S-0001'' 23 (Some (Naive (63902822400000000 + 5400000000))) 0)"

text \<open>The same sensor with one reading, stamped 01:30 of that day in UTC.\<close>

definition aware_scenario :: IoTSensorManager where
  "aware_scenario =
     snd (ingest_reading (one_sensor TEMPERATURE) ''S-0001'' 21
       (Some (Aware (63902822400000000 + 5400000000) 0)) 0)"

text \<open>One temperature sensor after a reading of 40: the manager holds one alert.\<close>

definition alert_scenario :: IoTSensorManager where
  "alert_scenario = snd (ingest_reading (one_sensor TEMPERATURE) ''S-0001'' 40 None 0)"

text \<open>
  One sensor and one reading: a temperature sensor at 23, and a sensor for volatile
  organic compounds and one for air quality at -1.
\<close>

definition comfort_scenario :: IoTSensorManager where
  "comfort_scenario = snd (ingest_reading (one_sensor TEMPERATURE) ''S-0001'' 23 None 0)"

definition voc_scenario :: IoTSensorManager where
  "voc_scenario = snd (ingest_reading (one_sensor VOC) ''S-0001'' (-1) None 0)"

definition aqi_scenario :: IoTSensorManager where
  "aqi_scenario = snd (ingest_reading (one_sensor AIR_QUALITY) ''S-0001'' (-1) None 0)"

section \<open>Facts about ingestion\<close>

lemma notify_callbacks_cases:
  "notify_callbacks cbs a = None \<or> notify_callbacks cbs a = Some BaseExceptionRaised"
  by (induction cbs) (auto split: callback_outcome.splits)

lemma notify_callbacks_caught:
  "\<forall>callback \<in> set cbs. callback a \<noteq> RaisesBaseException \<Longrightarrow> notify_callbacks cbs a = None"
  by (induction cbs) (auto split: callback_outcome.splits)

lemma new_alert_last_reading [simp]:
  "new_alert n (s\<lparr>last_reading := v', last_reading_time := t\<rparr>) v now = new_alert n s v now"
proof -
  let ?s = "s\<lparr>last_reading := v', last_reading_time := t\<rparr>"
  have same: "thresholds ?s = thresholds s" "sensor_id ?s = sensor_id s"
    "sensor_type ?s = sensor_type s" "room ?s = room s"
    by simp_all
  show ?thesis
    by (simp only: new_alert_def alert_severity_def same)
qed

lemma ingest_reading_unknown:
  "map_of (sensors m) sid = None \<Longrightarrow>
     ingest_reading m sid v ts now = (Inl (ValueError (''Sensor '' @ sid @ '' not found'')), m)"
  by (simp add: ingest_reading_def)

lemma ingest_reading_readings:
  "map_of (sensors m) sid = Some s \<Longrightarrow>
     readings (snd (ingest_reading m sid v ts now)) =
       readings m @ [new_reading (reading_counter m + 1) sid s v (timestamp_or_now ts now)]"
  by (simp add: ingest_reading_def generate_alert_def Let_def split: prod.splits option.splits)

lemma ingest_reading_alerts:
  "map_of (sensors m) sid = Some s \<Longrightarrow>
     alerts (snd (ingest_reading m sid v ts now)) =
       (if check_thresholds s v then alerts m @ [new_alert (alert_counter m + 1) s v now] else alerts m)"
  by (simp add: ingest_reading_def generate_alert_def new_reading_def Let_def split: prod.splits option.splits)

lemma ingest_reading_result:
  "map_of (sensors m) sid = Some s \<Longrightarrow>
     fst (ingest_reading m sid v ts now) =
       (if check_thresholds s v
        then (case notify_callbacks (alert_callbacks m) (new_alert (alert_counter m + 1) s v now) of
                None \<Rightarrow> Inr (new_reading (reading_counter m + 1) sid s v (timestamp_or_now ts now))
              | Some e \<Rightarrow> Inl e)
        else Inr (new_reading (reading_counter m + 1) sid s v (timestamp_or_now ts now)))"
  by (simp add: ingest_reading_def generate_alert_def new_reading_def Let_def split: prod.splits option.splits)

lemma ingest_reading_sensors:
  "map_of (sensors m) sid = Some s \<Longrightarrow>
     sensors (snd (ingest_reading m sid v ts now)) =
       AList.update sid (s\<lparr>last_reading := v, last_reading_time := timestamp_or_now ts now\<rparr>) (sensors m)"
  by (simp add: ingest_reading_def generate_alert_def Let_def split: prod.splits option.splits)

lemma ingest_reading_callbacks:
  "alert_callbacks (snd (ingest_reading m sid v ts now)) = alert_callbacks m"
  by (simp add: ingest_reading_def generate_alert_def Let_def split: prod.splits option.splits)

section \<open>Invariants of the reachable states\<close>

lemma set_update_subset: "set (AList.update k v al) \<subseteq> insert (k, v) (set al)"
  by (induction al) auto

lemma acknowledge_alert_fields [simp]:
  "sensors (snd (acknowledge_alert m aid)) = sensors m"
  "readings (snd (acknowledge_alert m aid)) = readings m"
  "alert_callbacks (snd (acknowledge_alert m aid)) = alert_callbacks m"
  by (simp_all add: acknowledge_alert_def split: prod.splits)

lemma resolve_alert_fields [simp]:
  "sensors (snd (resolve_alert m aid now)) = sensors m"
  "readings (snd (resolve_alert m aid now)) = readings m"
  "alert_callbacks (snd (resolve_alert m aid now)) = alert_callbacks m"
  by (simp_all add: resolve_alert_def split: prod.splits)

lemma register_sensor_fields [simp]:
  "readings (snd (register_sensor m t loc rm now)) = readings m"
  "alerts (snd (register_sensor m t loc rm now)) = alerts m"
  "alert_callbacks (snd (register_sensor m t loc rm now)) = alert_callbacks m"
  by (simp_all add: register_sensor_def Let_def)

lemma register_sensor_sensors:
  "sensors (snd (register_sensor m t loc rm now)) =
     AList.update (sensor_id (fst (register_sensor m t loc rm now)))
       (fst (register_sensor m t loc rm now)) (sensors m)"
  by (simp add: register_sensor_def Let_def)

lemma register_sensor_thresholds:
  "thresholds (fst (register_sensor m t loc rm now)) = config_thresholds t"
  "sensor_type (fst (register_sensor m t loc rm now)) = t"
  by (simp_all add: register_sensor_def Let_def config_thresholds_def)

lemma register_sensor_lookup:
  "map_of (sensors (snd (register_sensor m t loc rm now)))
     (sensor_id (fst (register_sensor m t loc rm now))) = Some (fst (register_sensor m t loc rm now))"
  by (simp add: register_sensor_sensors update_conv')

lemma thresholds_from_config_update:
  assumes "thresholds_from_config m" and "thresholds s = config_thresholds (sensor_type s)"
  shows "thresholds_from_config (m\<lparr>sensors := AList.update k s (sensors m)\<rparr>)"
  using assms set_update_subset [of k s "sensors m"]
  by (fastforce simp: thresholds_from_config_def list_all_iff)

lemma thresholds_from_config_cong:
  "sensors m' = sensors m \<Longrightarrow> thresholds_from_config m' = thresholds_from_config m"
  by (simp add: thresholds_from_config_def)

lemma thresholds_from_config_lookup:
  "thresholds_from_config m \<Longrightarrow> map_of (sensors m) sid = Some s \<Longrightarrow>
     thresholds s = config_thresholds (sensor_type s)"
  by (force simp: thresholds_from_config_def list_all_iff dest: map_of_SomeD)

lemma thresholds_from_config_ingest:
  assumes "thresholds_from_config m"
  shows "thresholds_from_config (snd (ingest_reading m sid v ts now))"
proof (cases "map_of (sensors m) sid")
  case None
  then show ?thesis using assms by (simp add: ingest_reading_unknown)
next
  case (Some s)
  let ?s = "s\<lparr>last_reading := v, last_reading_time := timestamp_or_now ts now\<rparr>"
  have "thresholds ?s = config_thresholds (sensor_type ?s)"
    using thresholds_from_config_lookup [OF assms Some] by simp
  from thresholds_from_config_update [OF assms this, of sid]
  show ?thesis
    by (simp add: thresholds_from_config_def ingest_reading_sensors [OF Some])
qed

lemma reachable_thresholds: "reachable m \<Longrightarrow> thresholds_from_config m"
proof (induction rule: reachable.induct)
  case (reachable_init pid)
  show ?case by (simp add: thresholds_from_config_def init_def)
next
  case (reachable_register m t loc rm now)
  from thresholds_from_config_update [OF reachable_register.IH, of "fst (register_sensor m t loc rm now)"
      "sensor_id (fst (register_sensor m t loc rm now))"]
  show ?case
    by (simp add: register_sensor_thresholds thresholds_from_config_def register_sensor_sensors)
next
  case (reachable_callback m callback)
  then show ?case by (simp add: thresholds_from_config_def register_alert_callback_def)
next
  case (reachable_ingest m sid v ts now)
  from reachable_ingest.IH show ?case by (rule thresholds_from_config_ingest)
next
  case (reachable_acknowledge m aid)
  then show ?case by (simp add: thresholds_from_config_def)
next
  case (reachable_resolve m aid now)
  then show ?case by (simp add: thresholds_from_config_def)
qed

lemma log_owned_ingest:
  assumes "log_owned m"
  shows "log_owned (snd (ingest_reading m sid v ts now))"
proof (cases "map_of (sensors m) sid")
  case None
  then show ?thesis using assms by (simp add: ingest_reading_unknown)
next
  case (Some s)
  show ?thesis
    using assms Some
    by (auto simp: log_owned_def list_all_iff ingest_reading_sensors [OF Some]
        ingest_reading_readings [OF Some] update_conv' new_reading_def)
qed

lemma reachable_log_owned: "reachable m \<Longrightarrow> log_owned m"
proof (induction rule: reachable.induct)
  case (reachable_init pid)
  show ?case by (simp add: log_owned_def init_def)
next
  case (reachable_register m t loc rm now)
  then show ?case
    by (auto simp: log_owned_def list_all_iff register_sensor_sensors update_conv')
next
  case (reachable_callback m callback)
  then show ?case by (simp add: log_owned_def register_alert_callback_def)
next
  case (reachable_ingest m sid v ts now)
  from reachable_ingest.IH show ?case by (rule log_owned_ingest)
next
  case (reachable_acknowledge m aid)
  then show ?case by (simp add: log_owned_def)
next
  case (reachable_resolve m aid now)
  then show ?case by (simp add: log_owned_def)
qed

section \<open>The scenario managers\<close>

lemma one_sensor_lookup:
  "map_of (sensors (one_sensor t)) (sensor_id (first_sensor t)) = Some (first_sensor t)"
  unfolding one_sensor_def first_sensor_def by (rule register_sensor_lookup)

lemma zero_padded_first:
  "zero_padded 4 (Suc 0) = ''0001''" "zero_padded 6 (Suc 0) = ''000001''"
  "zero_padded 8 (Suc 0) = ''00000001''"
  by code_simp+

lemma first_sensor_id: "sensor_id (first_sensor t) = ''S-0001''"
  by (simp add: first_sensor_def register_sensor_def init_def Let_def zero_padded_first)

lemma one_sensor_reachable: "reachable (one_sensor t)"
  unfolding one_sensor_def by (intro reachable.intros)

lemma config_optimal_order:
  "0 \<le> config_get t optimal_min 20 \<and> config_get t optimal_min 20 < config_get t optimal_max 80"
  by (cases t) (simp_all add: config_get_def)

section \<open>Threshold breaches and alerts\<close>

text \<open>
  Claim C5. For a registered sensor and any value \<open>v\<close>, the reading that
  \<^verbatim>\<open>ingest_reading\<close> logs (and returns, when it returns) has \<open>triggered_alert\<close> set
  exactly when \<open>v\<close> is below the sensor's \<open>min\<close> or above its \<open>max\<close>; exactly in
  that case one alert, for this sensor and value, is appended to the alert list, and
  otherwise the alert list is unchanged.
\<close>

theorem ingest_flags_breach_and_alerts:
  fixes m :: IoTSensorManager and sid :: string and s :: Sensor and v :: real
    and ts :: "datetime option" and now :: int
  assumes found: "map_of (sensors m) sid = Some s"
  defines "res \<equiv> fst (ingest_reading m sid v ts now)"
    and "m' \<equiv> snd (ingest_reading m sid v ts now)"
    and "breach \<equiv> v < thr_min (thresholds s) \<or> v > thr_max (thresholds s)"
  shows "\<exists>r. readings m' = readings m @ [r]
           \<and> triggered_alert r = breach
           \<and> (\<forall>x. res = Inr x \<longrightarrow> x = r)
           \<and> (if breach
               then \<exists>a. alerts m' = alerts m @ [a] \<and> a_sensor_id a = sensor_id s \<and> a_value a = v
               else alerts m' = alerts m \<and> res = Inr r)"
proof -
  let ?r = "new_reading (reading_counter m + 1) sid s v (timestamp_or_now ts now)"
  let ?a = "new_alert (alert_counter m + 1) s v now"
  have flag: "triggered_alert ?r = breach" and chk: "check_thresholds s v = breach"
    by (simp_all add: new_reading_def check_thresholds_def breach_def)
  have log: "readings m' = readings m @ [?r]"
    unfolding m'_def by (rule ingest_reading_readings [OF found])
  have ret: "\<forall>x. res = Inr x \<longrightarrow> x = ?r"
    unfolding res_def ingest_reading_result [OF found]
    by (simp split: option.splits)
  have al: "alerts m' = (if breach then alerts m @ [?a] else alerts m)"
    unfolding m'_def ingest_reading_alerts [OF found] chk ..
  have quiet: "\<not> breach \<Longrightarrow> res = Inr ?r"
    unfolding res_def ingest_reading_result [OF found] chk by simp
  have ids: "a_sensor_id ?a = sensor_id s" "a_value ?a = v"
    by (simp_all add: new_alert_def Let_def)
  show ?thesis
  proof (intro exI [of _ ?r] conjI)
    show "readings m' = readings m @ [?r]" by (rule log)
    show "triggered_alert ?r = breach" by (rule flag)
    show "\<forall>x. res = Inr x \<longrightarrow> x = ?r" by (rule ret)
    show "if breach
          then \<exists>a. alerts m' = alerts m @ [a] \<and> a_sensor_id a = sensor_id s \<and> a_value a = v
          else alerts m' = alerts m \<and> res = Inr ?r"
    proof (cases breach)
      case True
      then show ?thesis using al ids by simp
    next
      case False
      then show ?thesis using al quiet by simp
    qed
  qed
qed

theorem ingest_flags_breach_and_alerts_witness:
  "map_of (sensors (one_sensor TEMPERATURE)) ''S-0001'' = Some (first_sensor TEMPERATURE)
   \<and> (\<exists>r. readings (snd (ingest_reading (one_sensor TEMPERATURE) ''S-0001'' 40 None 5))
             = readings (one_sensor TEMPERATURE) @ [r]
         \<and> triggered_alert r
         \<and> (\<exists>a. alerts (snd (ingest_reading (one_sensor TEMPERATURE) ''S-0001'' 40 None 5))
                   = alerts (one_sensor TEMPERATURE) @ [a] \<and> a_value a = 40))"
proof -
  have h: "map_of (sensors (one_sensor TEMPERATURE)) ''S-0001'' = Some (first_sensor TEMPERATURE)"
    using one_sensor_lookup [of TEMPERATURE] by (simp add: first_sensor_id)
  have thr: "thr_max (thresholds (first_sensor TEMPERATURE)) = 35"
    by (simp add: first_sensor_def register_sensor_thresholds config_thresholds_def config_get_def)
  from ingest_flags_breach_and_alerts [OF h, of 40 None 5] thr
  show ?thesis using h by (auto split: if_splits)
qed

section \<open>Reading quality\<close>

lemma assess_reading_quality_cases:
  fixes v :: real and t :: SensorType
  defines "lo \<equiv> config_get t optimal_min 20" and "hi \<equiv> config_get t optimal_max 80"
  shows "(lo \<le> v \<and> v \<le> hi \<longrightarrow> assess_reading_quality v t = ''Good'')
       \<and> (v < 0.8 * lo \<or> v > 1.2 * hi \<longrightarrow> assess_reading_quality v t = ''Poor'')
       \<and> (\<not> (lo \<le> v \<and> v \<le> hi) \<and> \<not> (v < 0.8 * lo \<or> v > 1.2 * hi)
            \<longrightarrow> assess_reading_quality v t = ''Fair'')"
proof -
  have ord: "0 \<le> lo" "lo < hi"
    using config_optimal_order [of t] by (simp_all add: lo_def hi_def)
  have out: "v < 0.8 * lo \<or> v > 1.2 * hi \<Longrightarrow> \<not> (lo \<le> v \<and> v \<le> hi)"
    using ord by auto
  show ?thesis
    using out unfolding assess_reading_quality_def Let_def lo_def [symmetric] hi_def [symmetric]
    by (auto simp: mult.commute)
qed

text \<open>
  Claim C4. For a registered sensor with optimal range \<open>[lo, hi]\<close> and any ingested
  value \<open>v\<close>, the quality of the reading is Good when \<open>lo \<le> v \<le> hi\<close>, Poor when
  \<open>v < 0.8 lo\<close> or \<open>v > 1.2 hi\<close>, and Fair for every other value.
\<close>

theorem quality_classification:
  fixes m :: IoTSensorManager and sid :: string and s :: Sensor and v :: real
    and ts :: "datetime option" and now :: int
  assumes reach: "reachable m" and found: "map_of (sensors m) sid = Some s"
  defines "lo \<equiv> thr_optimal_min (thresholds s)" and "hi \<equiv> thr_optimal_max (thresholds s)"
    and "res \<equiv> fst (ingest_reading m sid v ts now)"
    and "m' \<equiv> snd (ingest_reading m sid v ts now)"
  shows "\<exists>r. readings m' = readings m @ [r] \<and> (\<forall>x. res = Inr x \<longrightarrow> x = r)
           \<and> (lo \<le> v \<and> v \<le> hi \<longrightarrow> r_quality r = ''Good'')
           \<and> (v < 0.8 * lo \<or> v > 1.2 * hi \<longrightarrow> r_quality r = ''Poor'')
           \<and> (\<not> (lo \<le> v \<and> v \<le> hi) \<and> \<not> (v < 0.8 * lo \<or> v > 1.2 * hi)
                \<longrightarrow> r_quality r = ''Fair'')"
proof -
  let ?r = "new_reading (reading_counter m + 1) sid s v (timestamp_or_now ts now)"
  have thr: "thresholds s = config_thresholds (sensor_type s)"
    by (rule thresholds_from_config_lookup [OF reachable_thresholds [OF reach] found])
  have lo: "lo = config_get (sensor_type s) optimal_min 20"
    and hi: "hi = config_get (sensor_type s) optimal_max 80"
    by (simp_all add: lo_def hi_def thr config_thresholds_def)
  have q: "r_quality ?r = assess_reading_quality v (sensor_type s)"
    by (simp add: new_reading_def)
  have log: "readings m' = readings m @ [?r]"
    unfolding m'_def by (rule ingest_reading_readings [OF found])
  have ret: "\<forall>x. res = Inr x \<longrightarrow> x = ?r"
    unfolding res_def ingest_reading_result [OF found]
    by (simp split: option.splits)
  show ?thesis
    using log ret assess_reading_quality_cases [of "sensor_type s" v]
    unfolding q [symmetric] lo [symmetric] hi [symmetric]
    by (intro exI [of _ ?r]) simp
qed

theorem quality_classification_witness:
  "reachable (one_sensor TEMPERATURE)
   \<and> map_of (sensors (one_sensor TEMPERATURE)) ''S-0001'' = Some (first_sensor TEMPERATURE)
   \<and> thr_optimal_min (thresholds (first_sensor TEMPERATURE)) = 20
   \<and> thr_optimal_max (thresholds (first_sensor TEMPERATURE)) = 26
   \<and> (\<exists>r. readings (snd (ingest_reading (one_sensor TEMPERATURE) ''S-0001'' 40 None 5))
             = readings (one_sensor TEMPERATURE) @ [r] \<and> r_quality r = ''Poor'')
   \<and> (\<exists>r. readings (snd (ingest_reading (one_sensor TEMPERATURE) ''S-0001'' 23 None 5))
             = readings (one_sensor TEMPERATURE) @ [r] \<and> r_quality r = ''Good'')
   \<and> (\<exists>r. readings (snd (ingest_reading (one_sensor TEMPERATURE) ''S-0001'' 28 None 5))
             = readings (one_sensor TEMPERATURE) @ [r] \<and> r_quality r = ''Fair'')"
proof -
  have h: "map_of (sensors (one_sensor TEMPERATURE)) ''S-0001'' = Some (first_sensor TEMPERATURE)"
    using one_sensor_lookup [of TEMPERATURE] by (simp add: first_sensor_id)
  have thr: "thr_optimal_min (thresholds (first_sensor TEMPERATURE)) = 20"
    "thr_optimal_max (thresholds (first_sensor TEMPERATURE)) = 26"
    by (simp_all add: first_sensor_def register_sensor_thresholds config_thresholds_def config_get_def)
  note q = quality_classification [OF one_sensor_reachable h, unfolded thr]
  have "\<exists>r. readings (snd (ingest_reading (one_sensor TEMPERATURE) ''S-0001'' 40 None 5))
             = readings (one_sensor TEMPERATURE) @ [r] \<and> r_quality r = ''Poor''"
    using q [of 40 None 5] by auto
  moreover have "\<exists>r. readings (snd (ingest_reading (one_sensor TEMPERATURE) ''S-0001'' 23 None 5))
             = readings (one_sensor TEMPERATURE) @ [r] \<and> r_quality r = ''Good''"
    using q [of 23 None 5] by auto
  moreover have "\<exists>r. readings (snd (ingest_reading (one_sensor TEMPERATURE) ''S-0001'' 28 None 5))
             = readings (one_sensor TEMPERATURE) @ [r] \<and> r_quality r = ''Fair''"
    using q [of 28 None 5] by auto
  ultimately show ?thesis using h thr one_sensor_reachable by blast
qed

section \<open>A temperature reading of 40\<close>

lemma temperature_thresholds:
  "config_thresholds TEMPERATURE =
     \<lparr>thr_min = 10, thr_max = 35, thr_optimal_min = 20, thr_optimal_max = 26\<rparr>"
  by (simp add: config_thresholds_def config_get_def)

text \<open>
  Claim C1 says that the alert raised when a fresh temperature sensor reads 40 is a
  Warning. The severity chain compares 40 with 35 * 1.2 = 42 and with 10 * 0.8 = 8, and
  neither test holds: the three properties of the claim do not hold together.
\<close>

theorem temperature_40_counterexample:
  "\<not> (r_quality (last (readings (snd (ingest_reading (one_sensor TEMPERATURE)
            (sensor_id (first_sensor TEMPERATURE)) 40 None 0)))) = ''Poor''
      \<and> triggered_alert (last (readings (snd (ingest_reading (one_sensor TEMPERATURE)
            (sensor_id (first_sensor TEMPERATURE)) 40 None 0))))
      \<and> severity (last (alerts (snd (ingest_reading (one_sensor TEMPERATURE)
            (sensor_id (first_sensor TEMPERATURE)) 40 None 0)))) = WARNING)"
proof -
  have thr: "thresholds (first_sensor TEMPERATURE) =
      \<lparr>thr_min = 10, thr_max = 35, thr_optimal_min = 20, thr_optimal_max = 26\<rparr>"
    by (simp add: first_sensor_def register_sensor_thresholds temperature_thresholds)
  have breach: "check_thresholds (first_sensor TEMPERATURE) 40"
    by (simp add: check_thresholds_def thr)
  have "severity (new_alert n (first_sensor TEMPERATURE) 40 0) = INFO" for n
    by (simp add: new_alert_def alert_severity_def thr)
  with ingest_reading_alerts [OF one_sensor_lookup [of TEMPERATURE], of 40 None 0] breach
  show ?thesis by simp
qed

text \<open>
  Claim C1, amended. A temperature sensor registered on a fresh manager has optimal
  range [20, 26] and maximum 35; ingesting 40 returns a reading of quality Poor whose
  \<open>triggered_alert\<close> is set, and creates exactly one alert, of severity Info.
\<close>

theorem temperature_40_scenario:
  fixes pid loc rm :: string and t0 now :: int and ts :: "datetime option"
  defines "s \<equiv> fst (register_sensor (init pid) TEMPERATURE loc rm t0)"
    and "m1 \<equiv> snd (register_sensor (init pid) TEMPERATURE loc rm t0)"
  defines "res \<equiv> fst (ingest_reading m1 (sensor_id s) 40 ts now)"
    and "m2 \<equiv> snd (ingest_reading m1 (sensor_id s) 40 ts now)"
  shows "thr_optimal_min (thresholds s) = 20 \<and> thr_optimal_max (thresholds s) = 26
       \<and> thr_max (thresholds s) = 35
       \<and> (\<exists>r. res = Inr r \<and> readings m2 = [r] \<and> r_quality r = ''Poor'' \<and> triggered_alert r)
       \<and> (\<exists>a. alerts m2 = [a] \<and> a_sensor_id a = sensor_id s \<and> a_value a = 40
              \<and> severity a = INFO)"
proof -
  let ?r = "new_reading (reading_counter m1 + 1) (sensor_id s) s 40 (timestamp_or_now ts now)"
  let ?a = "new_alert (alert_counter m1 + 1) s 40 now"
  have found: "map_of (sensors m1) (sensor_id s) = Some s"
    unfolding s_def m1_def by (rule register_sensor_lookup)
  have thr: "thresholds s = \<lparr>thr_min = 10, thr_max = 35, thr_optimal_min = 20, thr_optimal_max = 26\<rparr>"
    and ty: "sensor_type s = TEMPERATURE"
    by (simp_all add: s_def register_sensor_thresholds temperature_thresholds)
  have fresh: "readings m1 = []" "alerts m1 = []" "alert_callbacks m1 = []"
    by (simp_all add: m1_def init_def)
  have breach: "check_thresholds s 40"
    by (simp add: check_thresholds_def thr)
  have res: "res = Inr ?r"
    unfolding res_def ingest_reading_result [OF found] using breach fresh by simp
  have log: "readings m2 = [?r]"
    unfolding m2_def ingest_reading_readings [OF found] using fresh by simp
  have al: "alerts m2 = [?a]"
    unfolding m2_def ingest_reading_alerts [OF found] using breach fresh by simp
  have r: "r_quality ?r = ''Poor''" "triggered_alert ?r"
    using breach by (simp_all add: new_reading_def ty assess_reading_quality_def config_get_def)
  have a: "a_sensor_id ?a = sensor_id s" "a_value ?a = 40" "severity ?a = INFO"
    by (simp_all add: new_alert_def alert_severity_def thr)
  show ?thesis
    using res log al r a by (simp add: thr)
qed

theorem temperature_40_scenario_witness:
  "severity (hd (alerts (snd (ingest_reading (one_sensor TEMPERATURE)
       (sensor_id (first_sensor TEMPERATURE)) 40 None 0)))) = INFO
   \<and> length (alerts (snd (ingest_reading (one_sensor TEMPERATURE)
       (sensor_id (first_sensor TEMPERATURE)) 40 None 0))) = 1"
  using temperature_40_scenario [of "''PROP-001''" "''Main Hall''" "''Living Room''" 0 None 0]
  unfolding one_sensor_def first_sensor_def by auto

section \<open>Severity of alerts\<close>

lemma config_band_order:
  "0 \<le> thr_min (config_thresholds t) \<and> thr_min (config_thresholds t) \<le> thr_max (config_thresholds t)"
  by (cases t) (simp_all add: config_thresholds_def config_get_def)

lemma alert_severity_above:
  assumes "thr_min (thresholds s) \<le> thr_max (thresholds s)"
    and "thr_max (thresholds s) < v1" and "v1 \<le> v2"
  shows "severity_rank (alert_severity s v1) \<le> severity_rank (alert_severity s v2)"
  using assms unfolding alert_severity_def by (auto split: if_splits)

lemma alert_severity_below:
  assumes "thr_min (thresholds s) \<le> thr_max (thresholds s)"
    and "v1 < thr_min (thresholds s)" and "v2 \<le> v1"
  shows "severity_rank (alert_severity s v1) \<le> severity_rank (alert_severity s v2)"
  using assms unfolding alert_severity_def by (auto split: if_splits)

lemma new_alert_fields [simp]:
  "severity (new_alert n s v now) = alert_severity s v"
  "a_sensor_id (new_alert n s v now) = sensor_id s"
  "a_value (new_alert n s v now) = v"
  "acknowledged (new_alert n s v now) = False"
  "resolved (new_alert n s v now) = False"
  "alert_id (new_alert n s v now) = ''A-'' @ zero_padded 6 n"
  by (simp_all add: new_alert_def Let_def)

lemma ingest_reading_breach_severity:
  assumes "map_of (sensors m) sid = Some s" and "check_thresholds s v"
  shows "severity (last (alerts (snd (ingest_reading m sid v ts now)))) = alert_severity s v"
  using assms by (simp add: ingest_reading_alerts)

text \<open>
  Claim C6. For a registered sensor, when a value \<open>v1\<close> lies outside \<open>[min, max]\<close>
  and \<open>v2\<close> lies further out on the same side (above \<open>max\<close> with \<open>v1 \<le> v2\<close>, or
  below \<open>min\<close> with \<open>v2 \<le> v1\<close>), the alert generated for \<open>v2\<close> is at least as severe
  as the one generated for \<open>v1\<close>, in the order Info, Warning, Critical.
\<close>

theorem severity_monotone:
  fixes m :: IoTSensorManager and sid :: string and s :: Sensor and v1 v2 :: real
    and ts :: "datetime option" and now :: int
  assumes reach: "reachable m" and found: "map_of (sensors m) sid = Some s"
    and outside: "(thr_max (thresholds s) < v1 \<and> v1 \<le> v2) \<or> (v2 \<le> v1 \<and> v1 < thr_min (thresholds s))"
  shows "severity_rank (severity (last (alerts (snd (ingest_reading m sid v1 ts now)))))
       \<le> severity_rank (severity (last (alerts (snd (ingest_reading m sid v2 ts now)))))"
proof -
  have thr: "thresholds s = config_thresholds (sensor_type s)"
    by (rule thresholds_from_config_lookup [OF reachable_thresholds [OF reach] found])
  have band: "thr_min (thresholds s) \<le> thr_max (thresholds s)"
    using config_band_order [of "sensor_type s"] by (simp add: thr)
  have b1: "check_thresholds s v1" and b2: "check_thresholds s v2"
    using outside by (auto simp: check_thresholds_def)
  have "severity_rank (alert_severity s v1) \<le> severity_rank (alert_severity s v2)"
    using outside alert_severity_above [OF band] alert_severity_below [OF band] by blast
  then show ?thesis
    by (simp add: ingest_reading_breach_severity [OF found b1]
        ingest_reading_breach_severity [OF found b2])
qed

theorem severity_monotone_witness:
  "reachable (one_sensor TEMPERATURE)
   \<and> map_of (sensors (one_sensor TEMPERATURE)) ''S-0001'' = Some (first_sensor TEMPERATURE)
   \<and> thr_max (thresholds (first_sensor TEMPERATURE)) < 40 \<and> (40::real) \<le> 60
   \<and> severity (last (alerts (snd (ingest_reading (one_sensor TEMPERATURE) ''S-0001'' 40 None 0)))) = INFO
   \<and> severity (last (alerts (snd (ingest_reading (one_sensor TEMPERATURE) ''S-0001'' 60 None 0)))) = CRITICAL
   \<and> severity_rank (severity (last (alerts (snd (ingest_reading (one_sensor TEMPERATURE) ''S-0001'' 40 None 0)))))
       \<le> severity_rank (severity (last (alerts (snd (ingest_reading (one_sensor TEMPERATURE) ''S-0001'' 60 None 0)))))"
proof -
  have h: "map_of (sensors (one_sensor TEMPERATURE)) ''S-0001'' = Some (first_sensor TEMPERATURE)"
    using one_sensor_lookup [of TEMPERATURE] by (simp add: first_sensor_id)
  have thr: "thresholds (first_sensor TEMPERATURE) =
      \<lparr>thr_min = 10, thr_max = 35, thr_optimal_min = 20, thr_optimal_max = 26\<rparr>"
    by (simp add: first_sensor_def register_sensor_thresholds temperature_thresholds)
  have o: "(thr_max (thresholds (first_sensor TEMPERATURE)) < 40 \<and> (40::real) \<le> 60)
      \<or> ((60::real) \<le> 40 \<and> 40 < thr_min (thresholds (first_sensor TEMPERATURE)))"
    by (simp add: thr)
  have s40: "severity (last (alerts (snd (ingest_reading (one_sensor TEMPERATURE) ''S-0001'' 40 None 0)))) = INFO"
    by (subst ingest_reading_breach_severity [OF h]) (simp_all add: check_thresholds_def alert_severity_def thr)
  have s60: "severity (last (alerts (snd (ingest_reading (one_sensor TEMPERATURE) ''S-0001'' 60 None 0)))) = CRITICAL"
    by (subst ingest_reading_breach_severity [OF h]) (simp_all add: check_thresholds_def alert_severity_def thr)
  from severity_monotone [OF one_sensor_reachable h o, of None 0]
  show ?thesis using h one_sensor_reachable s40 s60 by (simp add: thr)
qed

section \<open>Acknowledging and resolving alerts\<close>

lemma acknowledge_loop_unknown:
  "aid \<notin> alert_id ` set as \<Longrightarrow> acknowledge_loop as aid = (False, as)"
  by (induction as) auto

lemma resolve_loop_unknown:
  "aid \<notin> alert_id ` set as \<Longrightarrow> resolve_loop as aid now = (False, as)"
  by (induction as) auto

lemma acknowledge_loop_known:
  "aid \<in> alert_id ` set as \<Longrightarrow>
     fst (acknowledge_loop as aid) \<and>
     map alert_id (snd (acknowledge_loop as aid)) = map alert_id as \<and>
     (\<exists>a. find (\<lambda>a. alert_id a = aid) as = Some a \<and>
          find (\<lambda>a. alert_id a = aid) (snd (acknowledge_loop as aid)) = Some (a\<lparr>acknowledged := True\<rparr>))"
  by (induction as) (auto split: prod.splits)

lemma resolve_loop_known:
  "aid \<in> alert_id ` set as \<Longrightarrow>
     fst (resolve_loop as aid now) \<and>
     map alert_id (snd (resolve_loop as aid now)) = map alert_id as \<and>
     (\<exists>a. find (\<lambda>a. alert_id a = aid) as = Some a \<and>
          find (\<lambda>a. alert_id a = aid) (snd (resolve_loop as aid now))
            = Some (a\<lparr>resolved := True, resolution_time := Some (Naive now)\<rparr>))"
  by (induction as) (auto split: prod.splits)

lemma acknowledge_loop_idem:
  "acknowledge_loop (snd (acknowledge_loop as aid)) aid = acknowledge_loop as aid"
  by (induction as) (auto split: prod.splits)

lemma acknowledge_alert_unfold:
  "acknowledge_alert m aid =
     (fst (acknowledge_loop (alerts m) aid), m\<lparr>alerts := snd (acknowledge_loop (alerts m) aid)\<rparr>)"
  by (simp add: acknowledge_alert_def split: prod.splits)

lemma resolve_alert_unfold:
  "resolve_alert m aid now =
     (fst (resolve_loop (alerts m) aid now), m\<lparr>alerts := snd (resolve_loop (alerts m) aid now)\<rparr>)"
  by (simp add: resolve_alert_def split: prod.splits)

lemma alert_scenario_ids: "map alert_id (alerts alert_scenario) = [''A-000001'']"
proof -
  have h: "map_of (sensors (one_sensor TEMPERATURE)) ''S-0001'' = Some (first_sensor TEMPERATURE)"
    using one_sensor_lookup [of TEMPERATURE] by (simp add: first_sensor_id)
  have thr: "thresholds (first_sensor TEMPERATURE) =
      \<lparr>thr_min = 10, thr_max = 35, thr_optimal_min = 20, thr_optimal_max = 26\<rparr>"
    by (simp add: first_sensor_def register_sensor_thresholds temperature_thresholds)
  have "alerts (one_sensor TEMPERATURE) = []" "alert_counter (one_sensor TEMPERATURE) = 0"
    by (simp_all add: one_sensor_def register_sensor_def init_def Let_def)
  then show ?thesis
    unfolding alert_scenario_def ingest_reading_alerts [OF h]
    by (simp add: check_thresholds_def thr zero_padded_first)
qed

text \<open>
  Claim C7. For a known alert identifier, \<^verbatim>\<open>acknowledge_alert\<close> returns True and sets
  \<open>acknowledged\<close> on the alert, and a second call returns True again and changes
  nothing; \<^verbatim>\<open>resolve_alert\<close> returns True and sets \<open>resolved\<close> and the resolution
  time, before as well as after an acknowledgement, leaving \<open>acknowledged\<close> as it was.
  For an unknown identifier both return False and leave the manager unchanged. (The
  alert of an identifier is the first one in the list that carries it.)
\<close>

theorem alert_lifecycle:
  fixes m :: IoTSensorManager and aid :: string and now :: int
  defines "m1 \<equiv> snd (acknowledge_alert m aid)"
  shows "(aid \<in> alert_id ` set (alerts m) \<longrightarrow>
          (\<exists>a. find (\<lambda>x. alert_id x = aid) (alerts m) = Some a
             \<and> fst (acknowledge_alert m aid)
             \<and> find (\<lambda>x. alert_id x = aid) (alerts m1) = Some (a\<lparr>acknowledged := True\<rparr>)
             \<and> acknowledge_alert m1 aid = (True, m1)
             \<and> fst (resolve_alert m aid now)
             \<and> find (\<lambda>x. alert_id x = aid) (alerts (snd (resolve_alert m aid now)))
                  = Some (a\<lparr>resolved := True, resolution_time := Some (Naive now)\<rparr>)
             \<and> fst (resolve_alert m1 aid now)
             \<and> find (\<lambda>x. alert_id x = aid) (alerts (snd (resolve_alert m1 aid now)))
                  = Some (a\<lparr>acknowledged := True, resolved := True, resolution_time := Some (Naive now)\<rparr>)))
       \<and> (aid \<notin> alert_id ` set (alerts m) \<longrightarrow>
            acknowledge_alert m aid = (False, m) \<and> resolve_alert m aid now = (False, m))"
proof (intro conjI impI)
  assume known: "aid \<in> alert_id ` set (alerts m)"
  let ?find = "find (\<lambda>x. alert_id x = aid)"
  from acknowledge_loop_known [OF known] obtain a where
    a: "?find (alerts m) = Some a"
    and ok: "fst (acknowledge_loop (alerts m) aid)"
    and ids: "map alert_id (snd (acknowledge_loop (alerts m) aid)) = map alert_id (alerts m)"
    and acked: "?find (snd (acknowledge_loop (alerts m) aid)) = Some (a\<lparr>acknowledged := True\<rparr>)"
    by blast
  have al1: "alerts m1 = snd (acknowledge_loop (alerts m) aid)"
    by (simp add: m1_def acknowledge_alert_unfold)
  have known1: "aid \<in> alert_id ` set (alerts m1)"
    using known ids unfolding al1 by (metis set_map)
  have again: "acknowledge_alert m1 aid = (True, m1)"
    using ok by (simp add: acknowledge_alert_unfold [of m1] al1 acknowledge_loop_idem)
  from resolve_loop_known [OF known, of now] a
  have r0: "fst (resolve_loop (alerts m) aid now)"
    "?find (snd (resolve_loop (alerts m) aid now)) = Some (a\<lparr>resolved := True, resolution_time := Some (Naive now)\<rparr>)"
    by auto
  from resolve_loop_known [OF known1, of now] acked
  have r1: "fst (resolve_loop (alerts m1) aid now)"
    "?find (snd (resolve_loop (alerts m1) aid now))
       = Some (a\<lparr>acknowledged := True, resolved := True, resolution_time := Some (Naive now)\<rparr>)"
    unfolding al1 by auto
  show "\<exists>a. ?find (alerts m) = Some a
             \<and> fst (acknowledge_alert m aid)
             \<and> ?find (alerts m1) = Some (a\<lparr>acknowledged := True\<rparr>)
             \<and> acknowledge_alert m1 aid = (True, m1)
             \<and> fst (resolve_alert m aid now)
             \<and> ?find (alerts (snd (resolve_alert m aid now)))
                  = Some (a\<lparr>resolved := True, resolution_time := Some (Naive now)\<rparr>)
             \<and> fst (resolve_alert m1 aid now)
             \<and> ?find (alerts (snd (resolve_alert m1 aid now)))
                  = Some (a\<lparr>acknowledged := True, resolved := True, resolution_time := Some (Naive now)\<rparr>)"
    using a ok acked again r0 r1
    by (intro exI [of _ a]) (simp add: acknowledge_alert_unfold [of m] resolve_alert_unfold al1 [symmetric])
next
  assume unknown: "aid \<notin> alert_id ` set (alerts m)"
  show "acknowledge_alert m aid = (False, m)"
    by (simp add: acknowledge_alert_unfold acknowledge_loop_unknown [OF unknown])
  show "resolve_alert m aid now = (False, m)"
    by (simp add: resolve_alert_unfold resolve_loop_unknown [OF unknown])
qed

theorem alert_lifecycle_witness:
  "''A-000001'' \<in> alert_id ` set (alerts alert_scenario)
   \<and> fst (acknowledge_alert alert_scenario ''A-000001'')
   \<and> acknowledge_alert (snd (acknowledge_alert alert_scenario ''A-000001'')) ''A-000001''
       = (True, snd (acknowledge_alert alert_scenario ''A-000001''))
   \<and> fst (resolve_alert alert_scenario ''A-000001'' 7)
   \<and> fst (resolve_alert (snd (acknowledge_alert alert_scenario ''A-000001'')) ''A-000001'' 7)
   \<and> ''A-000002'' \<notin> alert_id ` set (alerts alert_scenario)
   \<and> acknowledge_alert alert_scenario ''A-000002'' = (False, alert_scenario)
   \<and> resolve_alert alert_scenario ''A-000002'' 7 = (False, alert_scenario)"
proof -
  have ids: "alert_id ` set (alerts alert_scenario) = {''A-000001''}"
    using alert_scenario_ids by (metis list.set(1) list.simps(15) set_map)
  have k: "''A-000001'' \<in> alert_id ` set (alerts alert_scenario)"
    and u: "''A-000002'' \<notin> alert_id ` set (alerts alert_scenario)"
    by (simp_all add: ids)
  from alert_lifecycle [of "''A-000001''" alert_scenario 7] alert_lifecycle [of "''A-000002''" alert_scenario 7]
  show ?thesis using k u by blast
qed

section \<open>Callbacks\<close>

lemma register_alert_callback_fields [simp]:
  "sensors (register_alert_callback m callback) = sensors m"
  "readings (register_alert_callback m callback) = readings m"
  "alerts (register_alert_callback m callback) = alerts m"
  "alert_callbacks (register_alert_callback m callback) = alert_callbacks m @ [callback]"
  "alert_counter (register_alert_callback m callback) = alert_counter m"
  "reading_counter (register_alert_callback m callback) = reading_counter m"
  by (simp_all add: register_alert_callback_def)

lemma one_sensor_fresh [simp]:
  "readings (one_sensor t) = []" "alerts (one_sensor t) = []" "alert_callbacks (one_sensor t) = []"
  "alert_counter (one_sensor t) = 0" "reading_counter (one_sensor t) = 0"
  by (simp_all add: one_sensor_def register_sensor_def init_def Let_def)

lemma first_temperature_sensor:
  "map_of (sensors (one_sensor TEMPERATURE)) ''S-0001'' = Some (first_sensor TEMPERATURE)"
  "thresholds (first_sensor TEMPERATURE) =
     \<lparr>thr_min = 10, thr_max = 35, thr_optimal_min = 20, thr_optimal_max = 26\<rparr>"
  "sensor_type (first_sensor TEMPERATURE) = TEMPERATURE"
proof -
  show "map_of (sensors (one_sensor TEMPERATURE)) ''S-0001'' = Some (first_sensor TEMPERATURE)"
    using one_sensor_lookup [of TEMPERATURE] by (simp add: first_sensor_id)
  show "thresholds (first_sensor TEMPERATURE) =
     \<lparr>thr_min = 10, thr_max = 35, thr_optimal_min = 20, thr_optimal_max = 26\<rparr>"
    by (simp add: first_sensor_def register_sensor_thresholds temperature_thresholds)
  show "sensor_type (first_sensor TEMPERATURE) = TEMPERATURE"
    by (simp add: first_sensor_def register_sensor_thresholds)
qed

section \<open>Comfort score inside the optimal range\<close>

lemma calculate_sensor_score_in_range:
  fixes s :: Sensor
  defines "lo \<equiv> config_get (sensor_type s) optimal_min 20"
    and "hi \<equiv> config_get (sensor_type s) optimal_max 80"
  assumes inside: "lo \<le> last_reading s" "last_reading s \<le> hi"
  shows "calculate_sensor_score s =
           Inr (100 - 20 * \<bar>last_reading s - (lo + hi) / 2\<bar> / (hi - (lo + hi) / 2))"
    and "0 \<le> 100 - 20 * \<bar>last_reading s - (lo + hi) / 2\<bar> / (hi - (lo + hi) / 2)"
proof -
  let ?v = "last_reading s" and ?mid = "(lo + hi) / 2"
  have ord: "lo < hi"
    using config_optimal_order [of "sensor_type s"] by (simp add: lo_def hi_def)
  then have half: "0 < hi - ?mid" by (simp add: field_simps)
  have dist: "\<bar>?v - ?mid\<bar> \<le> hi - ?mid"
    using inside by (simp add: abs_le_iff field_simps)
  then have "\<bar>?v - ?mid\<bar> / (hi - ?mid) \<le> 1"
    using half by (simp add: field_simps)
  then show "0 \<le> 100 - 20 * \<bar>?v - ?mid\<bar> / (hi - ?mid)"
    by simp
  from half have nz: "hi - ?mid \<noteq> 0" by simp
  show "calculate_sensor_score s = Inr (100 - 20 * \<bar>?v - ?mid\<bar> / (hi - ?mid))"
    using inside nz
    unfolding calculate_sensor_score_def lo_def [symmetric] hi_def [symmetric] Let_def
    by simp
qed

lemma temperature_totals:
  "weighted_totals weights [(''Temperature'', 100)] (0, 0) = (25, 1 / 4)"
  "round1 100 = 100"
  "score_to_category 100 = ''Excellent''"
  "generate_comfort_recommendations [(''Temperature'', 100)] = [''All parameters within optimal range'']"
  by code_simp+

lemma one_temperature_sensor_23:
  assumes "sensors m = [(k, s)]" and "sensor_type s = TEMPERATURE" and "last_reading s = 23"
  shows "calculate_sensor_score s = Inr 100"
    and "calculate_comfort_score m = Inr \<lparr>overall_score = 100, category = ''Excellent'',
           component_scores = [(''Temperature'', 100)],
           recommendations = [''All parameters within optimal range'']\<rparr>"
proof -
  show score: "calculate_sensor_score s = Inr 100"
    using assms by (simp add: calculate_sensor_score_def config_get_def)
  have "collect_scores (map snd (sensors m)) [] = Inr [(''Temperature'', 100)]"
    using assms score by (simp add: weights_def)
  then show "calculate_comfort_score m = Inr \<lparr>overall_score = 100, category = ''Excellent'',
           component_scores = [(''Temperature'', 100)],
           recommendations = [''All parameters within optimal range'']\<rparr>"
    by (simp add: calculate_comfort_score_def temperature_totals)
qed

lemma one_sensor_sensors: "sensors (one_sensor t) = [(''S-0001'', first_sensor t)]"
  using first_sensor_id [of t]
  by (simp add: one_sensor_def first_sensor_def register_sensor_sensors init_def)

lemma comfort_scenario_sensors:
  "sensors comfort_scenario =
     [(''S-0001'', (first_sensor TEMPERATURE)\<lparr>last_reading := 23, last_reading_time := Naive 0\<rparr>)]"
  unfolding comfort_scenario_def ingest_reading_sensors [OF first_temperature_sensor(1)]
  by (simp add: one_sensor_sensors timestamp_or_now_def)

lemma comfort_scenario_reachable: "reachable comfort_scenario"
  unfolding comfort_scenario_def by (intro reachable.intros one_sensor_reachable)

text \<open>
  Claim C9. For every registered sensor whose last value \<open>v\<close> lies in its optimal range
  \<open>[lo, hi]\<close>, the score of the sensor is \<open>100 - 20 |v - mid| / (hi - mid)\<close> with
  \<open>mid = (lo + hi) / 2\<close>, clamped at 0. For a population of one temperature sensor
  whose last value is 23, the score of the sensor is 100, the overall score is 100 and
  the category is Excellent.
\<close>

theorem comfort_score_in_range:
  fixes m :: IoTSensorManager and sid :: string and s :: Sensor
  defines "lo \<equiv> thr_optimal_min (thresholds s)" and "hi \<equiv> thr_optimal_max (thresholds s)"
    and "v \<equiv> last_reading s"
  defines "mid \<equiv> (lo + hi) / 2"
  shows "(reachable m \<and> map_of (sensors m) sid = Some s \<and> lo \<le> v \<and> v \<le> hi \<longrightarrow>
            calculate_sensor_score s = Inr (max 0 (100 - 20 * \<bar>v - mid\<bar> / (hi - mid))))
       \<and> (\<forall>m1 k s1. sensors m1 = [(k, s1)] \<and> sensor_type s1 = TEMPERATURE \<and> last_reading s1 = 23 \<longrightarrow>
            calculate_sensor_score s1 = Inr 100
            \<and> (\<exists>r. calculate_comfort_score m1 = Inr r \<and> overall_score r = 100
                   \<and> category r = ''Excellent'' \<and> component_scores r = [(''Temperature'', 100)]))"
proof (intro conjI impI allI)
  assume a: "reachable m \<and> map_of (sensors m) sid = Some s \<and> lo \<le> v \<and> v \<le> hi"
  then have thr: "thresholds s = config_thresholds (sensor_type s)"
    using thresholds_from_config_lookup reachable_thresholds by blast
  have lo: "lo = config_get (sensor_type s) optimal_min 20"
    and hi: "hi = config_get (sensor_type s) optimal_max 80"
    by (simp_all add: lo_def hi_def thr config_thresholds_def)
  from a have inside: "config_get (sensor_type s) optimal_min 20 \<le> last_reading s"
    "last_reading s \<le> config_get (sensor_type s) optimal_max 80"
    by (simp_all add: lo hi v_def)
  show "calculate_sensor_score s = Inr (max 0 (100 - 20 * \<bar>v - mid\<bar> / (hi - mid)))"
    using calculate_sensor_score_in_range [OF inside]
    by (simp add: lo hi v_def mid_def max_def)
next
  fix m1 :: IoTSensorManager and k :: string and s1 :: Sensor
  assume b: "sensors m1 = [(k, s1)] \<and> sensor_type s1 = TEMPERATURE \<and> last_reading s1 = 23"
  then show "calculate_sensor_score s1 = Inr 100"
    using one_temperature_sensor_23(1) by blast
  from b show "\<exists>r. calculate_comfort_score m1 = Inr r \<and> overall_score r = 100
                   \<and> category r = ''Excellent'' \<and> component_scores r = [(''Temperature'', 100)]"
    using one_temperature_sensor_23(2) [of m1 k s1] by simp
qed

theorem comfort_score_in_range_witness:
  "reachable comfort_scenario
   \<and> sensors comfort_scenario =
        [(''S-0001'', (first_sensor TEMPERATURE)\<lparr>last_reading := 23, last_reading_time := Naive 0\<rparr>)]
   \<and> calculate_sensor_score ((first_sensor TEMPERATURE)\<lparr>last_reading := 23, last_reading_time := Naive 0\<rparr>)
       = Inr 100
   \<and> (\<exists>r. calculate_comfort_score comfort_scenario = Inr r \<and> overall_score r = 100
          \<and> category r = ''Excellent'')"
proof -
  let ?s = "(first_sensor TEMPERATURE)\<lparr>last_reading := 23, last_reading_time := Naive 0\<rparr>"
  have h: "sensors comfort_scenario = [(''S-0001'', ?s)] \<and> sensor_type ?s = TEMPERATURE
      \<and> last_reading ?s = 23"
    by (simp add: comfort_scenario_sensors first_temperature_sensor)
  have f: "map_of (sensors comfort_scenario) ''S-0001'' = Some ?s"
    by (simp add: comfort_scenario_sensors)
  have r: "thr_optimal_min (thresholds ?s) \<le> last_reading ?s"
    "last_reading ?s \<le> thr_optimal_max (thresholds ?s)"
    by (simp_all add: first_temperature_sensor)
  from comfort_score_in_range [of comfort_scenario "''S-0001''" ?s] h f r comfort_scenario_reachable
  show ?thesis by blast
qed

section \<open>Comfort score outside the optimal range\<close>

lemma calculate_sensor_score_zero_min:
  assumes "config_get (sensor_type s) optimal_min 20 = 0" and "last_reading s < 0"
  shows "calculate_sensor_score s = Inl ZeroDivisionError"
  using assms by (simp add: calculate_sensor_score_def Let_def)

lemma calculate_sensor_score_error:
  "calculate_sensor_score s = Inl e \<Longrightarrow> e = ZeroDivisionError"
  by (auto simp: calculate_sensor_score_def Let_def split: if_splits)

lemma calculate_sensor_score_total:
  assumes "0 \<le> last_reading s \<or> 0 < config_get (sensor_type s) optimal_min 20"
  shows "\<exists>x. calculate_sensor_score s = Inr x"
proof (cases "config_get (sensor_type s) optimal_min 20 \<le> last_reading s
    \<and> last_reading s \<le> config_get (sensor_type s) optimal_max 80")
  case True
  then show ?thesis
    using calculate_sensor_score_in_range(1) [of s] by blast
next
  case False
  have ord: "0 \<le> config_get (sensor_type s) optimal_min 20"
    "config_get (sensor_type s) optimal_min 20 < config_get (sensor_type s) optimal_max 80"
    using config_optimal_order [of "sensor_type s"] by simp_all
  show ?thesis
  proof (cases "last_reading s < config_get (sensor_type s) optimal_min 20")
    case True
    with assms ord have "config_get (sensor_type s) optimal_min 20 \<noteq> 0" by auto
    with True False show ?thesis
      unfolding calculate_sensor_score_def Let_def by simp
  next
    case above: False
    from ord have "config_get (sensor_type s) optimal_max 80 \<noteq> 0" by auto
    with above False show ?thesis
      unfolding calculate_sensor_score_def Let_def by simp
  qed
qed

lemma collect_scores_error:
  "collect_scores ss acc = Inl e \<Longrightarrow> e = ZeroDivisionError"
  by (induction ss arbitrary: acc)
    (auto split: if_splits sum.splits dest: calculate_sensor_score_error)

lemma collect_scores_fails:
  assumes "s \<in> set ss" and "map_of weights (sensor_type s) \<noteq> None"
    and "calculate_sensor_score s = Inl ZeroDivisionError"
  shows "collect_scores ss acc = Inl ZeroDivisionError"
  using assms
proof (induction ss arbitrary: acc)
  case Nil
  then show ?case by simp
next
  case (Cons x xs)
  show ?case
  proof (cases "x = s")
    case True
    then show ?thesis using Cons.prems by simp
  next
    case False
    with Cons.prems have "s \<in> set xs" by simp
    from Cons.IH [OF this Cons.prems(2,3)] show ?thesis
      by (auto split: sum.splits dest: calculate_sensor_score_error)
  qed
qed

lemma collect_scores_total:
  assumes "\<forall>s \<in> set ss. map_of weights (sensor_type s) \<noteq> None \<longrightarrow>
             0 \<le> last_reading s \<or> 0 < config_get (sensor_type s) optimal_min 20"
  shows "\<exists>scores. collect_scores ss acc = Inr scores"
  using assms
proof (induction ss arbitrary: acc)
  case Nil
  then show ?case by simp
next
  case (Cons x xs)
  show ?case
  proof (cases "map_of weights (sensor_type x) \<noteq> None")
    case True
    with Cons.prems obtain sc where "calculate_sensor_score x = Inr sc"
      using calculate_sensor_score_total [of x] by auto
    with True Cons show ?thesis by simp
  next
    case False
    with Cons show ?thesis by simp
  qed
qed

lemma calculate_comfort_score_Inr:
  "collect_scores (map snd (sensors m)) [] = Inr scores \<Longrightarrow> \<exists>r. calculate_comfort_score m = Inr r"
  by (simp add: calculate_comfort_score_def Let_def split: prod.splits)

lemma calculate_comfort_score_Inl:
  "collect_scores (map snd (sensors m)) [] = Inl e \<Longrightarrow> calculate_comfort_score m = Inl e"
  by (simp add: calculate_comfort_score_def)

lemma zero_optimal_min_categories:
  "(config_get t optimal_min 20 = (0::real)) = (t \<in> {AIR_QUALITY, VOC, PARTICULATE, NOISE, ELECTRICITY})"
  by (cases t) (simp_all add: config_get_def)

lemma weighted_categories:
  "(map_of weights t \<noteq> None) = (t \<in> {TEMPERATURE, HUMIDITY, AIR_QUALITY, CO2, NOISE, LIGHT})"
  by (cases t) (simp_all add: weights_def)

text \<open>
  Claim C10 says that a negative last value of any sensor whose category has
  \<open>optimal_min = 0\<close> makes \<^verbatim>\<open>calculate_comfort_score\<close> fail. Volatile organic
  compounds are such a category, and the score of such a sensor at -1 does divide by
  zero; but the category has no weight, so \<^verbatim>\<open>calculate_comfort_score\<close> never scores the
  sensor, and returns.
\<close>

theorem comfort_score_partial_counterexample:
  "map (sensor_type \<circ> snd) (sensors voc_scenario) = [VOC]
   \<and> config_get VOC optimal_min 20 = (0::real)
   \<and> map (last_reading \<circ> snd) (sensors voc_scenario) = [- 1]
   \<and> map (calculate_sensor_score \<circ> snd) (sensors voc_scenario) = [Inl ZeroDivisionError]
   \<and> calculate_comfort_score voc_scenario =
        Inr \<lparr>overall_score = 50, category = ''Poor'', component_scores = [],
             recommendations = [''All parameters within optimal range'']\<rparr>"
  by code_simp

text \<open>
  Claim C10, amended. The score of a sensor whose category has \<open>optimal_min = 0\<close> and
  whose last value is negative raises \<^verbatim>\<open>ZeroDivisionError\<close>. When the category of such a
  sensor has a weight, \<^verbatim>\<open>calculate_comfort_score\<close> raises it too; the weighted
  categories with \<open>optimal_min = 0\<close> are air quality and noise. When every weighted
  sensor has a non-negative last value or a positive \<open>optimal_min\<close>,
  \<^verbatim>\<open>calculate_comfort_score\<close> returns a result.
\<close>

theorem comfort_score_partial:
  fixes m :: IoTSensorManager and s :: Sensor and t :: SensorType
  shows "(config_get (sensor_type s) optimal_min 20 = 0 \<and> last_reading s < 0 \<longrightarrow>
            calculate_sensor_score s = Inl ZeroDivisionError)
       \<and> (s \<in> snd ` set (sensors m) \<and> map_of weights (sensor_type s) \<noteq> None
            \<and> config_get (sensor_type s) optimal_min 20 = 0 \<and> last_reading s < 0 \<longrightarrow>
            calculate_comfort_score m = Inl ZeroDivisionError)
       \<and> ((\<forall>x \<in> snd ` set (sensors m). map_of weights (sensor_type x) \<noteq> None \<longrightarrow>
               0 \<le> last_reading x \<or> 0 < config_get (sensor_type x) optimal_min 20) \<longrightarrow>
            (\<exists>r. calculate_comfort_score m = Inr r))
       \<and> (config_get t optimal_min 20 = (0::real)
            \<and> map_of weights t \<noteq> None) = (t \<in> {AIR_QUALITY, NOISE})"
proof (intro conjI impI)
  assume "config_get (sensor_type s) optimal_min 20 = 0 \<and> last_reading s < 0"
  then show "calculate_sensor_score s = Inl ZeroDivisionError"
    using calculate_sensor_score_zero_min by blast
next
  assume a: "s \<in> snd ` set (sensors m) \<and> map_of weights (sensor_type s) \<noteq> None
            \<and> config_get (sensor_type s) optimal_min 20 = 0 \<and> last_reading s < 0"
  then have "calculate_sensor_score s = Inl ZeroDivisionError"
    using calculate_sensor_score_zero_min by blast
  with a have "collect_scores (map snd (sensors m)) [] = Inl ZeroDivisionError"
    by (intro collect_scores_fails [of s]) simp_all
  then show "calculate_comfort_score m = Inl ZeroDivisionError"
    by (rule calculate_comfort_score_Inl)
next
  assume "\<forall>x \<in> snd ` set (sensors m). map_of weights (sensor_type x) \<noteq> None \<longrightarrow>
               0 \<le> last_reading x \<or> 0 < config_get (sensor_type x) optimal_min 20"
  then have "\<exists>scores. collect_scores (map snd (sensors m)) [] = Inr scores"
    by (intro collect_scores_total) simp
  then show "\<exists>r. calculate_comfort_score m = Inr r"
    using calculate_comfort_score_Inr by blast
next
  show "(config_get t optimal_min 20 = (0::real) \<and> map_of weights t \<noteq> None) = (t \<in> {AIR_QUALITY, NOISE})"
    unfolding zero_optimal_min_categories weighted_categories by auto
qed

theorem comfort_score_partial_witness:
  "snd (hd (sensors aqi_scenario)) \<in> snd ` set (sensors aqi_scenario)
   \<and> map_of weights (sensor_type (snd (hd (sensors aqi_scenario)))) \<noteq> None
   \<and> config_get (sensor_type (snd (hd (sensors aqi_scenario)))) optimal_min 20 = (0::real)
   \<and> last_reading (snd (hd (sensors aqi_scenario))) < 0
   \<and> calculate_comfort_score aqi_scenario = Inl ZeroDivisionError
   \<and> map (last_reading \<circ> snd) (sensors comfort_scenario) = [23]
   \<and> (\<exists>r. calculate_comfort_score comfort_scenario = Inr r)"
proof -
  let ?s = "snd (hd (sensors aqi_scenario))"
  have ne: "sensors aqi_scenario \<noteq> []" by code_simp
  then have mem: "?s \<in> snd ` set (sensors aqi_scenario)" by simp
  have w: "map_of weights (sensor_type ?s) \<noteq> None" by code_simp
  have z: "config_get (sensor_type ?s) optimal_min 20 = (0::real)" by code_simp
  have n: "last_reading ?s < 0" by code_simp
  have c: "\<forall>x \<in> snd ` set (sensors comfort_scenario). map_of weights (sensor_type x) \<noteq> None \<longrightarrow>
               0 \<le> last_reading x \<or> 0 < config_get (sensor_type x) optimal_min 20"
    by (simp add: comfort_scenario_sensors)
  have fails: "calculate_comfort_score aqi_scenario = Inl ZeroDivisionError"
    using comfort_score_partial [of ?s aqi_scenario] mem w z n by blast
  have returns: "\<exists>r. calculate_comfort_score comfort_scenario = Inr r"
    using comfort_score_partial [of _ comfort_scenario] c by blast
  show ?thesis
    using mem w z n fails returns by (simp add: comfort_scenario_sensors)
qed

section \<open>The history query\<close>

lemma get_sensor_history_unfold:
  "get_sensor_history m sid hours now =
     (if window_representable hours now
      then history_of (readings m) sid (now - hours * 3600000000)
      else Inl OverflowError)"
  by (simp add: get_sensor_history_def timedelta_hours_def datetime_minus_def
      window_representable_def datetime_span_def)

lemma later_than_eq:
  "later_than ts cutoff = (if is_aware ts then Inl TypeError else Inr (cutoff < instant ts))"
  by (cases ts) simp_all

lemma history_of_aware:
  "\<exists>r \<in> set rs. r_sensor_id r = sid \<and> is_aware (r_timestamp r) \<Longrightarrow>
     history_of rs sid cutoff = Inl TypeError"
proof (induction rs)
  case Nil
  then show ?case by simp
next
  case (Cons r rs)
  show ?case
  proof (cases "r_sensor_id r = sid \<and> is_aware (r_timestamp r)")
    case True
    then show ?thesis by (simp add: later_than_eq)
  next
    case False
    with Cons.prems have "\<exists>x \<in> set rs. r_sensor_id x = sid \<and> is_aware (r_timestamp x)" by auto
    from Cons.IH [OF this] show ?thesis by (simp add: later_than_eq)
  qed
qed

lemma history_of_naive:
  "\<forall>r \<in> set rs. r_sensor_id r = sid \<longrightarrow> \<not> is_aware (r_timestamp r) \<Longrightarrow>
     history_of rs sid cutoff =
       Inr (map history_entry_of
             (filter (\<lambda>r. r_sensor_id r = sid \<and> cutoff < instant (r_timestamp r)) rs))"
  by (induction rs) (simp_all add: later_than_eq)

lemma history_of_append:
  "history_of (rs @ [r]) sid cutoff =
     (case history_of rs sid cutoff of
        Inl e \<Rightarrow> Inl e
      | Inr entries \<Rightarrow>
          if r_sensor_id r = sid
          then (if is_aware (r_timestamp r) then Inl TypeError
                else Inr (entries @ (if cutoff < instant (r_timestamp r) then [history_entry_of r] else [])))
          else Inr entries)"
proof (induction rs)
  case Nil
  show ?case by (simp add: later_than_eq)
next
  case (Cons x xs)
  show ?case
    by (cases "history_of xs sid cutoff") (simp_all add: Cons.IH later_than_eq)
qed

lemma history_of_error: "history_of rs sid cutoff = Inl e \<Longrightarrow> e = TypeError"
  by (induction rs) (auto simp: later_than_eq split: if_splits sum.splits)

lemma log_owned_history_of:
  "log_owned m \<Longrightarrow> map_of (sensors m) sid = None \<Longrightarrow> history_of (readings m) sid cutoff = Inr []"
proof -
  assume "log_owned m" and "map_of (sensors m) sid = None"
  then have none: "\<forall>r \<in> set (readings m). r_sensor_id r \<noteq> sid"
    by (auto simp: log_owned_def list_all_iff)
  then have "history_of (readings m) sid cutoff =
      Inr (map history_entry_of
            (filter (\<lambda>r. r_sensor_id r = sid \<and> cutoff < instant (r_timestamp r)) (readings m)))"
    by (intro history_of_naive) blast
  with none show ?thesis by (simp add: filter_empty_conv)
qed

text \<open>
  Claim C2 says that a history query for an unregistered sensor raises. The query
  filters the reading log and never looks the sensor up: for an identifier that is not
  registered, and a window of 24 hours before 2026-01-01T02:00:00, it returns the empty
  list.
\<close>

theorem unknown_sensor_history_counterexample:
  "map_of (sensors (one_sensor TEMPERATURE)) ''S-0002'' = None
   \<and> get_sensor_history (one_sensor TEMPERATURE) ''S-0002'' 24 two_o_clock = Inr []"
  by code_simp

text \<open>
  Claim C2, amended. In every reachable manager and for every sensor identifier that is
  not registered, \<^verbatim>\<open>ingest_reading\<close> raises \<^verbatim>\<open>ValueError\<close> and leaves the manager as
  it was. \<^verbatim>\<open>get_sensor_history\<close> raises nothing for the unknown sensor: it returns the
  empty list whenever the cutoff \<open>now - hours\<close> can be computed, and raises
  \<^verbatim>\<open>OverflowError\<close>, as for any sensor, when it cannot.
\<close>

theorem unknown_sensor:
  assumes "reachable m" and "map_of (sensors m) sid = None"
  shows "ingest_reading m sid v ts now = (Inl (ValueError (''Sensor '' @ sid @ '' not found'')), m)
       \<and> get_sensor_history m sid hours now' =
           (if window_representable hours now' then Inr [] else Inl OverflowError)"
  using assms ingest_reading_unknown log_owned_history_of reachable_log_owned
  by (simp add: get_sensor_history_unfold)

theorem unknown_sensor_witness:
  "reachable (one_sensor TEMPERATURE)
   \<and> map_of (sensors (one_sensor TEMPERATURE)) ''S-0002'' = None
   \<and> ingest_reading (one_sensor TEMPERATURE) ''S-0002'' 21 None 0
       = (Inl (ValueError ''Sensor S-0002 not found''), one_sensor TEMPERATURE)
   \<and> window_representable 24 two_o_clock
   \<and> get_sensor_history (one_sensor TEMPERATURE) ''S-0002'' 24 two_o_clock = Inr []
   \<and> \<not> window_representable 20000000 two_o_clock
   \<and> get_sensor_history (one_sensor TEMPERATURE) ''S-0002'' 20000000 two_o_clock = Inl OverflowError"
proof -
  have h: "map_of (sensors (one_sensor TEMPERATURE)) ''S-0002'' = None"
    by (simp add: one_sensor_def register_sensor_def init_def Let_def zero_padded_first)
  have w: "window_representable 24 two_o_clock" "\<not> window_representable 20000000 two_o_clock"
    by (simp_all add: window_representable_def two_o_clock_def)
  from unknown_sensor [OF one_sensor_reachable h, of 21 None 0 24 two_o_clock]
    unknown_sensor [OF one_sensor_reachable h, of 21 None 0 20000000 two_o_clock]
  show ?thesis using h w one_sensor_reachable by simp
qed

section \<open>The history window\<close>

lemma get_sensor_history_ingest:
  assumes "map_of (sensors m) sid' = Some s"
  shows "get_sensor_history (snd (ingest_reading m sid' v ts t)) sid hours now =
           (case get_sensor_history m sid hours now of
              Inl e \<Rightarrow> Inl e
            | Inr entries \<Rightarrow>
                if sid' = sid
                then (if is_aware (timestamp_or_now ts t) then Inl TypeError
                      else Inr (entries @
                        (if now - hours * 3600000000 < instant (timestamp_or_now ts t)
                         then [\<lparr>h_value = v, h_timestamp = timestamp_or_now ts t,
                                 h_quality = assess_reading_quality v (sensor_type s)\<rparr>]
                         else [])))
                else Inr entries)"
  by (cases "history_of (readings m) sid (now - hours * 3600000000)")
    (simp_all add: get_sensor_history_unfold ingest_reading_readings [OF assms] history_of_append
      new_reading_def history_entry_of_def)

text \<open>
  Claim C3 says that, for every window, the history holds the readings stamped within
  \<open>[now - hours, now]\<close>, in chronological order. With \<open>now\<close> at 02:00 and a window
  of one hour, the log of the scenario has a reading stamped after \<open>now\<close>, one stamped
  exactly at \<open>now - hours\<close> and one inside the window: the history returns the first
  and the third, in the order of the log. With a window of 20000000 hours the cutoff
  would lie before the year 1 and the query raises \<^verbatim>\<open>OverflowError\<close>; with an
  offset-aware timestamp in the log of the sensor it raises \<^verbatim>\<open>TypeError\<close>.
\<close>

theorem history_window_counterexample:
  "map r_timestamp (readings history_scenario) =
     [Naive (63902822400000000 + 9000000000), Naive (63902822400000000 + 3600000000),
      Naive (63902822400000000 + 5400000000)]
   \<and> two_o_clock - 1 * 3600000000 = 63902822400000000 + 3600000000
   \<and> get_sensor_history history_scenario ''S-0001'' 1 two_o_clock =
        Inr [\<lparr>h_value = 21, h_timestamp = Naive (63902822400000000 + 9000000000), h_quality = ''Good''\<rparr>,
             \<lparr>h_value = 23, h_timestamp = Naive (63902822400000000 + 5400000000), h_quality = ''Good''\<rparr>]
   \<and> get_sensor_history history_scenario ''S-0001'' 20000000 two_o_clock = Inl OverflowError
   \<and> get_sensor_history aware_scenario ''S-0001'' 1 two_o_clock = Inl TypeError"
  by code_simp

text \<open>
  Claim C3, amended. When the cutoff \<open>now - hours\<close> cannot be computed the history
  query raises \<^verbatim>\<open>OverflowError\<close>; otherwise, when the log holds an offset-aware
  timestamp for the sensor, it raises \<^verbatim>\<open>TypeError\<close>; otherwise it returns exactly the
  log entries of that sensor stamped strictly later than the cutoff, in the order of
  the log. All entries of a returned history are later than the cutoff, whatever the
  order of insertion; the history is empty when the log has no such entry; and an
  ingestion for a registered sensor appends its reading to the history of that sensor
  when the reading's timestamp is later than the cutoff, makes it raise
  \<^verbatim>\<open>TypeError\<close> when the timestamp is offset-aware, and changes no other history.
\<close>

theorem history_window:
  fixes m :: IoTSensorManager and sid :: string and hours now :: int
  defines "cutoff \<equiv> now - hours * 3600000000"
  shows "get_sensor_history m sid hours now =
           (if \<not> window_representable hours now then Inl OverflowError
            else if \<exists>r \<in> set (readings m). r_sensor_id r = sid \<and> is_aware (r_timestamp r)
            then Inl TypeError
            else Inr (map history_entry_of
                  (filter (\<lambda>r. r_sensor_id r = sid \<and> cutoff < instant (r_timestamp r)) (readings m))))
       \<and> (\<forall>entries. get_sensor_history m sid hours now = Inr entries \<longrightarrow>
            (\<forall>e \<in> set entries. \<not> is_aware (h_timestamp e) \<and> cutoff < instant (h_timestamp e)))
       \<and> (window_representable hours now
            \<and> (\<forall>r \<in> set (readings m). r_sensor_id r = sid \<longrightarrow>
                  \<not> is_aware (r_timestamp r) \<and> instant (r_timestamp r) \<le> cutoff)
            \<longrightarrow> get_sensor_history m sid hours now = Inr [])
       \<and> (\<forall>sid' s v ts t. map_of (sensors m) sid' = Some s \<longrightarrow>
            get_sensor_history (snd (ingest_reading m sid' v ts t)) sid hours now =
              (case get_sensor_history m sid hours now of
                 Inl e \<Rightarrow> Inl e
               | Inr entries \<Rightarrow>
                   if sid' = sid
                   then (if is_aware (timestamp_or_now ts t) then Inl TypeError
                         else Inr (entries @
                           (if cutoff < instant (timestamp_or_now ts t)
                            then [\<lparr>h_value = v, h_timestamp = timestamp_or_now ts t,
                                    h_quality = assess_reading_quality v (sensor_type s)\<rparr>]
                            else [])))
                   else Inr entries))"
proof -
  let ?aware = "\<exists>r \<in> set (readings m). r_sensor_id r = sid \<and> is_aware (r_timestamp r)"
  let ?kept = "filter (\<lambda>r. r_sensor_id r = sid \<and> cutoff < instant (r_timestamp r)) (readings m)"
  have char: "get_sensor_history m sid hours now =
           (if \<not> window_representable hours now then Inl OverflowError
            else if ?aware then Inl TypeError
            else Inr (map history_entry_of ?kept))"
  proof (cases "window_representable hours now")
    case False
    then show ?thesis by (simp add: get_sensor_history_unfold)
  next
    case True
    show ?thesis
    proof (cases ?aware)
      case True
      from history_of_aware [OF this] \<open>window_representable hours now\<close> True
      show ?thesis by (simp add: get_sensor_history_unfold)
    next
      case False
      then have "history_of (readings m) sid cutoff = Inr (map history_entry_of ?kept)"
        by (intro history_of_naive) blast
      with False \<open>window_representable hours now\<close>
      show ?thesis by (simp add: get_sensor_history_unfold cutoff_def)
    qed
  qed
  have inside: "\<forall>entries. get_sensor_history m sid hours now = Inr entries \<longrightarrow>
            (\<forall>e \<in> set entries. \<not> is_aware (h_timestamp e) \<and> cutoff < instant (h_timestamp e))"
    unfolding char by (auto simp: history_entry_of_def split: if_splits)
  have empty: "window_representable hours now
            \<and> (\<forall>r \<in> set (readings m). r_sensor_id r = sid \<longrightarrow>
                  \<not> is_aware (r_timestamp r) \<and> instant (r_timestamp r) \<le> cutoff)
            \<longrightarrow> get_sensor_history m sid hours now = Inr []"
    unfolding char by (auto simp: filter_empty_conv)
  have step: "\<forall>sid' s v ts t. map_of (sensors m) sid' = Some s \<longrightarrow>
            get_sensor_history (snd (ingest_reading m sid' v ts t)) sid hours now =
              (case get_sensor_history m sid hours now of
                 Inl e \<Rightarrow> Inl e
               | Inr entries \<Rightarrow>
                   if sid' = sid
                   then (if is_aware (timestamp_or_now ts t) then Inl TypeError
                         else Inr (entries @
                           (if cutoff < instant (timestamp_or_now ts t)
                            then [\<lparr>h_value = v, h_timestamp = timestamp_or_now ts t,
                                    h_quality = assess_reading_quality v (sensor_type s)\<rparr>]
                            else [])))
                   else Inr entries)"
    unfolding cutoff_def using get_sensor_history_ingest by blast
  from char inside empty step show ?thesis by blast
qed

theorem history_window_witness:
  "map_of (sensors (one_sensor TEMPERATURE)) ''S-0001'' = Some (first_sensor TEMPERATURE)
   \<and> window_representable 1 two_o_clock
   \<and> get_sensor_history (one_sensor TEMPERATURE) ''S-0001'' 1 two_o_clock = Inr []
   \<and> get_sensor_history
        (snd (ingest_reading (one_sensor TEMPERATURE) ''S-0001'' 21
           (Some (Naive (63902822400000000 + 9000000000))) 0))
        ''S-0001'' 1 two_o_clock
       = Inr [\<lparr>h_value = 21, h_timestamp = Naive (63902822400000000 + 9000000000),
               h_quality = ''Good''\<rparr>]
   \<and> get_sensor_history
        (snd (ingest_reading (one_sensor TEMPERATURE) ''S-0001'' 22
           (Some (Naive (63902822400000000 + 3600000000))) 0))
        ''S-0001'' 1 two_o_clock = Inr []
   \<and> get_sensor_history
        (snd (ingest_reading (one_sensor TEMPERATURE) ''S-0001'' 21
           (Some (Aware (63902822400000000 + 5400000000) 0)) 0))
        ''S-0001'' 1 two_o_clock = Inl TypeError
   \<and> \<not> window_representable 20000000 two_o_clock
   \<and> get_sensor_history (one_sensor TEMPERATURE) ''S-0001'' 20000000 two_o_clock = Inl OverflowError
   \<and> get_sensor_history (one_sensor TEMPERATURE) ''S-0001'' (- 69898629) two_o_clock = Inr []
   \<and> get_sensor_history (one_sensor TEMPERATURE) ''S-0001'' (- 69898630) two_o_clock = Inl OverflowError
   \<and> get_sensor_history (one_sensor TEMPERATURE) ''S-0001'' 24000000000 two_o_clock = Inl OverflowError"
proof -
  have h: "map_of (sensors (one_sensor TEMPERATURE)) ''S-0001'' = Some (first_sensor TEMPERATURE)"
    using one_sensor_lookup [of TEMPERATURE] by (simp add: first_sensor_id)
  have e: "readings (one_sensor TEMPERATURE) = []"
    by (simp add: one_sensor_def init_def)
  have edge: "window_representable (- 69898629) two_o_clock"
    "\<not> window_representable (- 69898630) two_o_clock"
    "\<not> window_representable 24000000000 two_o_clock"
    by (simp_all add: window_representable_def two_o_clock_def)
  have far: "get_sensor_history (one_sensor TEMPERATURE) ''S-0001'' (- 69898629) two_o_clock = Inr []"
    "get_sensor_history (one_sensor TEMPERATURE) ''S-0001'' (- 69898630) two_o_clock = Inl OverflowError"
    "get_sensor_history (one_sensor TEMPERATURE) ''S-0001'' 24000000000 two_o_clock = Inl OverflowError"
    using history_window [of "one_sensor TEMPERATURE" "''S-0001''" "- 69898629" two_o_clock]
      history_window [of "one_sensor TEMPERATURE" "''S-0001''" "- 69898630" two_o_clock]
      history_window [of "one_sensor TEMPERATURE" "''S-0001''" 24000000000 two_o_clock]
      edge e by simp_all
  have ty: "sensor_type (first_sensor TEMPERATURE) = TEMPERATURE"
    by (simp add: first_sensor_def register_sensor_thresholds)
  have q: "assess_reading_quality 21 TEMPERATURE = ''Good''"
    by (simp add: assess_reading_quality_def config_get_def)
  have w: "window_representable 1 two_o_clock" "\<not> window_representable 20000000 two_o_clock"
    by (simp_all add: window_representable_def two_o_clock_def)
  note hw = history_window [of "one_sensor TEMPERATURE" "''S-0001''" 1 two_o_clock]
  have e0: "get_sensor_history (one_sensor TEMPERATURE) ''S-0001'' 1 two_o_clock = Inr []"
    using hw e w by simp
  from hw h e0 have step: "get_sensor_history
        (snd (ingest_reading (one_sensor TEMPERATURE) ''S-0001'' v ts t)) ''S-0001'' 1 two_o_clock
      = (if is_aware (timestamp_or_now ts t) then Inl TypeError
         else Inr (if two_o_clock - 1 * 3600000000 < instant (timestamp_or_now ts t)
            then [\<lparr>h_value = v, h_timestamp = timestamp_or_now ts t,
                    h_quality = assess_reading_quality v (sensor_type (first_sensor TEMPERATURE))\<rparr>]
            else []))" for v ts t
    by simp
  have over: "get_sensor_history (one_sensor TEMPERATURE) ''S-0001'' 20000000 two_o_clock = Inl OverflowError"
    using history_window [of "one_sensor TEMPERATURE" "''S-0001''" 20000000 two_o_clock] w by simp
  show ?thesis
    using h e0 w over far
      step [of 21 "Some (Naive (63902822400000000 + 9000000000))" 0]
      step [of 22 "Some (Naive (63902822400000000 + 3600000000))" 0]
      step [of 21 "Some (Aware (63902822400000000 + 5400000000) 0)" 0]
    by (simp add: ty q timestamp_or_now_def two_o_clock_def)
qed

section \<open>Callbacks that raise\<close>

lemma notify_callbacks_eq:
  "notify_callbacks cbs a =
     (if \<exists>callback \<in> set cbs. callback a = RaisesBaseException then Some BaseExceptionRaised
      else None)"
  by (induction cbs) (auto split: callback_outcome.splits)

text \<open>
  Claim C8 says that no listener can keep an ingestion from returning. The handler of
  the callback loop is \<^verbatim>\<open>except Exception\<close>: a callback that leaves through
  \<^verbatim>\<open>SystemExit\<close> or \<^verbatim>\<open>KeyboardInterrupt\<close> is not caught, and the ingestion raises
  instead of returning the reading (the reading and the alert are in their lists by then).
\<close>

theorem listener_isolation_counterexample:
  "fst (ingest_reading (register_alert_callback (one_sensor TEMPERATURE) exiting_callback)
         ''S-0001'' 40 None 0) = Inl BaseExceptionRaised
   \<and> length (readings (snd (ingest_reading
         (register_alert_callback (one_sensor TEMPERATURE) exiting_callback) ''S-0001'' 40 None 0))) = 1
   \<and> length (alerts (snd (ingest_reading
         (register_alert_callback (one_sensor TEMPERATURE) exiting_callback) ''S-0001'' 40 None 0))) = 1"
proof -
  have h: "map_of (sensors (register_alert_callback (one_sensor TEMPERATURE) exiting_callback)) ''S-0001''
      = Some (first_sensor TEMPERATURE)"
    by (simp add: first_temperature_sensor)
  have b: "check_thresholds (first_sensor TEMPERATURE) 40"
    by (simp add: check_thresholds_def first_temperature_sensor)
  show ?thesis
    unfolding ingest_reading_result [OF h] ingest_reading_readings [OF h] ingest_reading_alerts [OF h]
    using b by (simp add: exiting_callback_def)
qed

text \<open>
  Claim C8, amended. For every list of registered callbacks, whatever each of them
  does, the ingestion of a breaching reading for a registered sensor appends the reading
  to the log and the alert to the alert list. It returns the reading unless some
  registered callback, called with the alert, raises a \<^verbatim>\<open>BaseException\<close> that is not
  an \<^verbatim>\<open>Exception\<close>, and in that case it raises that exception. An \<^verbatim>\<open>Exception\<close>
  of a callback never reaches the caller, and the callbacks registered after it are
  still called.
\<close>

theorem listener_isolation:
  fixes m :: IoTSensorManager and sid :: string and s :: Sensor and v :: real
    and ts :: "datetime option" and now :: int
  assumes found: "map_of (sensors m) sid = Some s"
    and breach: "v < thr_min (thresholds s) \<or> v > thr_max (thresholds s)"
  shows "\<exists>r a. readings (snd (ingest_reading m sid v ts now)) = readings m @ [r]
           \<and> r_sensor_id r = sid \<and> r_value r = v \<and> triggered_alert r
           \<and> alerts (snd (ingest_reading m sid v ts now)) = alerts m @ [a]
           \<and> a_sensor_id a = sensor_id s \<and> a_value a = v
           \<and> alert_callbacks (snd (ingest_reading m sid v ts now)) = alert_callbacks m
           \<and> fst (ingest_reading m sid v ts now) =
                 (if \<exists>callback \<in> set (alert_callbacks m). callback a = RaisesBaseException
                  then Inl BaseExceptionRaised else Inr r)"
proof -
  let ?r = "new_reading (reading_counter m + 1) sid s v (timestamp_or_now ts now)"
  let ?a = "new_alert (alert_counter m + 1) s v now"
  have chk: "check_thresholds s v"
    using breach by (simp add: check_thresholds_def)
  have res: "fst (ingest_reading m sid v ts now) =
      (if \<exists>callback \<in> set (alert_callbacks m). callback ?a = RaisesBaseException
       then Inl BaseExceptionRaised else Inr ?r)"
    unfolding ingest_reading_result [OF found] using chk by (simp add: notify_callbacks_eq)
  have log: "readings (snd (ingest_reading m sid v ts now)) = readings m @ [?r]"
    by (rule ingest_reading_readings [OF found])
  have al: "alerts (snd (ingest_reading m sid v ts now)) = alerts m @ [?a]"
    unfolding ingest_reading_alerts [OF found] using chk by simp
  have r: "r_sensor_id ?r = sid" "r_value ?r = v" "triggered_alert ?r"
    using chk by (simp_all add: new_reading_def)
  show ?thesis
    using res log al r ingest_reading_callbacks [of m sid v ts now]
    by (intro exI [of _ ?r] exI [of _ ?a]) simp
qed

theorem listener_isolation_witness:
  "map_of (sensors (register_alert_callback (one_sensor TEMPERATURE) failing_callback)) ''S-0001''
     = Some (first_sensor TEMPERATURE)
   \<and> thr_max (thresholds (first_sensor TEMPERATURE)) < 40
   \<and> alert_callbacks (register_alert_callback (one_sensor TEMPERATURE) failing_callback) = [failing_callback]
   \<and> (\<exists>r. fst (ingest_reading (register_alert_callback (one_sensor TEMPERATURE) failing_callback)
                  ''S-0001'' 40 None 0) = Inr r
          \<and> readings (snd (ingest_reading (register_alert_callback (one_sensor TEMPERATURE) failing_callback)
                  ''S-0001'' 40 None 0)) = [r])
   \<and> length (alerts (snd (ingest_reading (register_alert_callback (one_sensor TEMPERATURE) failing_callback)
                  ''S-0001'' 40 None 0))) = 1
   \<and> alert_callbacks (register_alert_callback
          (register_alert_callback (one_sensor TEMPERATURE) failing_callback) exiting_callback)
        = [failing_callback, exiting_callback]
   \<and> fst (ingest_reading (register_alert_callback
          (register_alert_callback (one_sensor TEMPERATURE) failing_callback) exiting_callback)
          ''S-0001'' 40 None 0) = Inl BaseExceptionRaised
   \<and> length (readings (snd (ingest_reading (register_alert_callback
          (register_alert_callback (one_sensor TEMPERATURE) failing_callback) exiting_callback)
          ''S-0001'' 40 None 0))) = 1
   \<and> length (alerts (snd (ingest_reading (register_alert_callback
          (register_alert_callback (one_sensor TEMPERATURE) failing_callback) exiting_callback)
          ''S-0001'' 40 None 0))) = 1"
proof -
  let ?m1 = "register_alert_callback (one_sensor TEMPERATURE) failing_callback"
  let ?m2 = "register_alert_callback ?m1 exiting_callback"
  have h1: "map_of (sensors ?m1) ''S-0001'' = Some (first_sensor TEMPERATURE)"
    and h2: "map_of (sensors ?m2) ''S-0001'' = Some (first_sensor TEMPERATURE)"
    by (simp_all add: first_temperature_sensor)
  have b: "40 < thr_min (thresholds (first_sensor TEMPERATURE))
      \<or> 40 > thr_max (thresholds (first_sensor TEMPERATURE))"
    by (simp add: first_temperature_sensor)
  from listener_isolation [OF h1 b, of None 0]
  have one: "(\<exists>r. fst (ingest_reading ?m1 ''S-0001'' 40 None 0) = Inr r
          \<and> readings (snd (ingest_reading ?m1 ''S-0001'' 40 None 0)) = [r])
      \<and> length (alerts (snd (ingest_reading ?m1 ''S-0001'' 40 None 0))) = 1"
    by (auto simp: failing_callback_def)
  from listener_isolation [OF h2 b, of None 0]
  have two: "fst (ingest_reading ?m2 ''S-0001'' 40 None 0) = Inl BaseExceptionRaised
      \<and> length (readings (snd (ingest_reading ?m2 ''S-0001'' 40 None 0))) = 1
      \<and> length (alerts (snd (ingest_reading ?m2 ''S-0001'' 40 None 0))) = 1"
    by (auto simp: failing_callback_def exiting_callback_def)
  show ?thesis
    using h1 one two by (simp add: first_temperature_sensor)
qed

end
